theory Spec2Isabelle
  imports Main "HOL-Library.Word"
begin

section \<open>Python values\<close>

text \<open>
  A Python \<open>str\<close> is a sequence of Unicode code points, a \<open>bytearray\<close> a sequence of
  bytes. String literals of the source are ASCII and are written \<open>py ''...''\<close>.
\<close>

type_synonym pystr = "nat list"
type_synonym byte = "8 word"

abbreviation (input) py :: "string \<Rightarrow> pystr" where
  "py s \<equiv> map of_char s"

text \<open>
  \<open>str.lower\<close> on the letters A-Z. Every other code point is kept, which is what Python
  does for all of ASCII; the name prefixes compared against are ASCII letters.
\<close>

definition lower_cp :: "nat \<Rightarrow> nat" where
  "lower_cp c = (if 65 \<le> c \<and> c \<le> 90 then c + 32 else c)"

definition lower :: "pystr \<Rightarrow> pystr" where
  "lower s = map lower_cp s"

definition startswith :: "pystr \<Rightarrow> pystr \<Rightarrow> bool" where
  "startswith s p = (take (length p) s = p)"

text \<open>
  Exceptions of the program. \<open>is_Exception\<close> is \<open>isinstance(e, Exception)\<close>:
  \<open>CancelledError\<close> and \<open>KeyboardInterrupt\<close> derive from \<open>BaseException\<close> only, so no
  \<open>except Exception\<close> clause catches them.
\<close>

datatype pyexc =
    UnicodeDecodeError
  | JSONDecodeError
  | TypeError
  | KeyError
  | AttributeError
  | ValueError
  | BleakError
  | MqttError
  | RecursionError
  | CancelledError
  | KeyboardInterrupt

fun is_Exception :: "pyexc \<Rightarrow> bool" where
  "is_Exception CancelledError = False"
| "is_Exception KeyboardInterrupt = False"
| "is_Exception _ = True"

section \<open>Device discovery\<close>

text \<open>
  \<open>product_map\<close> is the table of \<open>discover_device\<close>; \<open>product_class\<close> is
  \<open>product_map.get(SF_PRODUCT_ID, "zen")\<close>.
\<close>

definition product_map :: "(pystr \<times> pystr) list" where
  "product_map =
     [(py ''73bkTV'', py ''zenp''),
      (py ''A8yh63'', py ''zenh''),
      (py ''yWF7hV'', py ''zenr''),
      (py ''ja72U0ha'', py ''zene''),
      (py ''8bM93H'', py ''zenf'')]"

definition product_class :: "pystr \<Rightarrow> pystr" where
  "product_class pid = (case map_of product_map pid of Some p \<Rightarrow> p | None \<Rightarrow> py ''zen'')"

text \<open>
  A \<open>BLEDevice\<close> as the scanner reports it: the advertised name (\<open>None\<close> when the
  peripheral advertises none) and the address.
\<close>

record device =
  name :: "pystr option"
  address :: pystr

text \<open>
  The filter of both strategies:
  \<open>d.name and d.name.lower().startswith(product_class)\<close>. A missing and an empty name
  are falsy.
\<close>

definition name_matches :: "pystr \<Rightarrow> device \<Rightarrow> bool" where
  "name_matches pc d =
     (case name d of
        None \<Rightarrow> False
      | Some n \<Rightarrow> n \<noteq> [] \<and> startswith (lower n) pc)"

text \<open>
  What the radio delivers to one run of \<open>discover_device\<close>: the advertisers collected by
  \<open>BleakScanner.discover\<close> (or the exception it raises), and what
  \<open>BleakScanner.find_device_by_filter\<close> observes afterwards, in the order of arrival
  until its timeout (or the exception it raises). \<open>find_device_by_filter\<close> answers with
  the first observed advertiser that passes the filter.
\<close>

record scan_env =
  discover :: "pyexc + device list"
  filter_scan :: "pyexc + device list"

definition find_device_by_filter ::
  "(device \<Rightarrow> bool) \<Rightarrow> pyexc + device list \<Rightarrow> pyexc + device option" where
  "find_device_by_filter f obs =
     (case obs of Inl e \<Rightarrow> Inl e | Inr ds \<Rightarrow> Inr (find f ds))"

text \<open>
  \<open>discover_device\<close>. The result is the device, or the exception that leaves the
  function. The first scan is outside every \<open>try\<close>. An \<open>Exception\<close> of the filtered scan
  is logged and leaves \<open>device\<close> at \<open>None\<close>. The loop over \<open>all_devices\<close> stops at the
  first entry that passes the filter. The log records of this function and its adapter
  diagnostics, which only log, are left out.
\<close>

definition discover_device :: "pystr \<Rightarrow> scan_env \<Rightarrow> pyexc + device option" where
  "discover_device pid env =
     (let pc = product_class pid in
      case discover env of
        Inl e \<Rightarrow> Inl e
      | Inr all_devices \<Rightarrow>
          (case find_device_by_filter (name_matches pc) (filter_scan env) of
             Inl e \<Rightarrow>
               if is_Exception e then Inr (find (name_matches pc) all_devices)
               else Inl e
           | Inr (Some d) \<Rightarrow> Inr (Some d)
           | Inr None \<Rightarrow> Inr (find (name_matches pc) all_devices)))"

text \<open>Two advertisers in range whose names start with \<open>zene\<close>, up to case.\<close>

definition hub_a :: device where
  "hub_a = \<lparr>name = Some (py ''zene-0001''), address = py ''AA:00''\<rparr>"

definition hub_b :: device where
  "hub_b = \<lparr>name = Some (py ''ZenE-1234''), address = py ''BB:00''\<rparr>"

section \<open>Python objects and the json encoder\<close>

text \<open>
  The objects \<open>json.loads\<close> builds and \<open>json.dumps\<close> prints. A \<open>dict\<close> keeps its keys
  in insertion order, so it is an association list. A \<open>float\<close> is carried by its
  \<open>repr\<close>: floating-point arithmetic is not modelled, and the program does none.
\<close>

datatype pyobj =
    PNone
  | PBool bool
  | PInt int
  | PFloat pystr
  | PStr pystr
  | PList "pyobj list"
  | PDict "(pystr \<times> pyobj) list"

text \<open>\<open>str(n)\<close> for an \<open>int\<close>: decimal digits, with a minus sign below zero.\<close>

fun digits :: "nat \<Rightarrow> pystr" where
  "digits n = (if n < 10 then [48 + n] else digits (n div 10) @ [48 + n mod 10])"

declare digits.simps [simp del]

definition str_int :: "int \<Rightarrow> pystr" where
  "str_int i = (if i < 0 then 45 # digits (nat (- i)) else digits (nat i))"

text \<open>
  \<open>json.dumps\<close> with its defaults (\<open>ensure_ascii=True\<close>, separators \<open>", "\<close> and
  \<open>": "\<close>). A code point outside the printable ASCII range, a quote and a backslash
  are escaped; a code point above \<open>0xFFFF\<close> becomes a surrogate pair.
\<close>

definition hex_digit :: "nat \<Rightarrow> nat" where
  "hex_digit d = (if d < 10 then 48 + d else 87 + d)"

definition hex4 :: "nat \<Rightarrow> pystr" where
  "hex4 n =
     [hex_digit (n div 4096 mod 16), hex_digit (n div 256 mod 16),
      hex_digit (n div 16 mod 16), hex_digit (n mod 16)]"

definition escape_cp :: "nat \<Rightarrow> pystr" where
  "escape_cp c =
     (if c = 34 then [92, 34]
      else if c = 92 then [92, 92]
      else if c = 10 then [92, 110]
      else if c = 13 then [92, 114]
      else if c = 9 then [92, 116]
      else if c = 8 then [92, 98]
      else if c = 12 then [92, 102]
      else if 32 \<le> c \<and> c \<le> 126 then [c]
      else if c < 65536 then [92, 117] @ hex4 c
      else [92, 117] @ hex4 (55296 + (c - 65536) div 1024 mod 1024)
         @ [92, 117] @ hex4 (56320 + (c - 65536) mod 1024))"

definition encode_basestring_ascii :: "pystr \<Rightarrow> pystr" where
  "encode_basestring_ascii s = 34 # concat (map escape_cp s) @ [34]"

fun join :: "pystr \<Rightarrow> pystr list \<Rightarrow> pystr" where
  "join sep [] = []"
| "join sep [x] = x"
| "join sep (x # y # ys) = x @ sep @ join sep (y # ys)"

definition float_json :: "pystr \<Rightarrow> pystr" where
  "float_json r =
     (if r = py ''nan'' then py ''NaN''
      else if r = py ''inf'' then py ''Infinity''
      else if r = py ''-inf'' then py ''-Infinity''
      else r)"

fun json_dumps :: "pyobj \<Rightarrow> pystr" where
  "json_dumps PNone = py ''null''"
| "json_dumps (PBool b) = (if b then py ''true'' else py ''false'')"
| "json_dumps (PInt i) = str_int i"
| "json_dumps (PFloat r) = float_json r"
| "json_dumps (PStr s) = encode_basestring_ascii s"
| "json_dumps (PList xs) = 91 # join (py '', '') (map json_dumps xs) @ [93]"
| "json_dumps (PDict kvs) =
     123 # join (py '', '')
       (map (\<lambda>(k, v). encode_basestring_ascii k @ py '': '' @ json_dumps v) kvs) @ [125]"

text \<open>The code points \<open>json.dumps\<close> copies unchanged into a string literal.\<close>

definition plain :: "nat \<Rightarrow> bool" where
  "plain c = (32 \<le> c \<and> c \<le> 126 \<and> c \<noteq> 34 \<and> c \<noteq> 92)"

text \<open>
  \<open>b = bytearray(); b.extend(map(ord, s))\<close>: one byte per code point, and a
  \<open>ValueError\<close> when a code point does not fit a byte.
\<close>

definition bytes_of_ords :: "pystr \<Rightarrow> pyexc + byte list" where
  "bytes_of_ords s = (if list_all (\<lambda>c. c < 256) s then Inr (map of_nat s) else Inl ValueError)"

section \<open>Effects\<close>

text \<open>
  The program acts through its logger, the BLE client, the MQTT client and
  \<open>asyncio.sleep\<close>. A run is described by the list of these calls in program order.
  What an awaited call does (return, or raise) is an input of the model: \<open>None\<close> is a
  normal return, \<open>Some e\<close> the exception raised.
\<close>

datatype level = DEBUG | INFO | SUCCESS | WARNING | ERROR

datatype logmsg =
    SendingGetInfo
  | GetInfoFailed pyexc
  | SendingGetAll
  | GetPropertiesFailed pyexc
  | SettingIoTUrl pystr
  | SettingUrlFailed pyexc
  | SettingStationMode
  | SettingWifiModeFailed pyexc
  | PublishingRegisterReply
  | Received pyobj
  | DeviceID pyobj
  | DeviceSN pyobj
  | PropertiesReceived nat
  | PropertyValue pystr pyobj
  | BatteryPacks nat
  | PackSN pyobj
  | InvalidJSON pystr
  | ErrorHandlingData pyexc
  | RawData "byte list"
  | ConnectingMqtt pystr int
  | UsingMqttAuth pystr
  | MqttConnectionFailed pyexc
  | FoundDevice device
  | ConnectingTo device
  | ServicesAvailable
  | Service pystr
  | SettingDisconnect
  | DisconnectedFromCloud
  | SettingReconnect
  | ReconnectedToCloud
  | InfoOnlyMode
  | ContinuousMode int
  | PollingLoopError pyexc
  | ConnectionFailed pyexc
  | NoDeviceFound
  | Troubleshooting

datatype event =
    Log level logmsg
  | WriteGattChar pystr "byte list"
  | StartNotify pystr
  | StopNotify pystr
  | Publish pystr pyobj bool
  | Sleep int
  | MqttConnect pystr int
  | BleConnect device
  | BleDisconnect

text \<open>
  How a piece of the program ends: it completes, it raises, or it is still executing
  when the supplied environment ends (only the polling loop, which has no exit of its
  own, ends this way).
\<close>

datatype outcome = Done | Raised pyexc | Running

type_synonym action = "event list \<times> outcome"

text \<open>A block of statements: only a statement that completes is followed by the next.\<close>

fun block :: "action list \<Rightarrow> action" where
  "block [] = ([], Done)"
| "block (a # as) =
     (case snd a of
        Done \<Rightarrow> (fst a @ fst (block as), snd (block as))
      | _ \<Rightarrow> a)"

text \<open>\<open>try: body except Exception as e: handler(e)\<close>.\<close>

definition try_except :: "action \<Rightarrow> (pyexc \<Rightarrow> action) \<Rightarrow> action" where
  "try_except body handler =
     (case snd body of
        Raised e \<Rightarrow>
          if is_Exception e then (fst body @ fst (handler e), snd (handler e)) else body
      | _ \<Rightarrow> body)"

definition log :: "level \<Rightarrow> logmsg \<Rightarrow> action" where
  "log l m = ([Log l m], Done)"

definition skip :: action where
  "skip = ([], Done)"

definition raise :: "pyexc \<Rightarrow> action" where
  "raise e = ([], Raised e)"

text \<open>An awaited or library call: the call is recorded, then it returns or raises.\<close>

definition call :: "event \<Rightarrow> pyexc option \<Rightarrow> action" where
  "call ev res = ([ev], (case res of None \<Rightarrow> Done | Some e \<Rightarrow> Raised e))"

section \<open>Commands\<close>

definition SF_COMMAND_CHAR :: pystr where
  "SF_COMMAND_CHAR = py ''0000c304-0000-1000-8000-00805f9b34fb''"

definition SF_NOTIFY_CHAR :: pystr where
  "SF_NOTIFY_CHAR = py ''0000c305-0000-1000-8000-00805f9b34fb''"

text \<open>
  One command write of \<open>getInfo\<close> and \<open>set_IoT_Url\<close>: the text is turned into bytes and
  handed to \<open>client.write_gatt_char(SF_COMMAND_CHAR, b, response=False)\<close>.
\<close>

definition write_command :: "pystr \<Rightarrow> pyexc option \<Rightarrow> action" where
  "write_command text outcome =
     (case bytes_of_ords text of
        Inl e \<Rightarrow> raise e
      | Inr b \<Rightarrow> call (WriteGattChar SF_COMMAND_CHAR b) outcome)"

text \<open>
  \<open>getInfo\<close>. \<open>now\<close> is \<open>int(time.time())\<close>, read once; \<open>w1\<close> and \<open>w2\<close> are what the two
  writes do.
\<close>

definition info_cmd :: "int \<Rightarrow> pyobj" where
  "info_cmd now =
     PDict [(py ''messageId'', PStr (py ''none'')),
            (py ''method'', PStr (py ''getInfo'')),
            (py ''timestamp'', PStr (str_int now))]"

definition properties_cmd :: "int \<Rightarrow> pyobj" where
  "properties_cmd now =
     PDict [(py ''method'', PStr (py ''read'')),
            (py ''timestamp'', PStr (str_int now)),
            (py ''messageId'', PStr (py ''none'')),
            (py ''properties'', PList [PStr (py ''getAll'')])]"

definition getInfo :: "int \<Rightarrow> pyexc option \<Rightarrow> pyexc option \<Rightarrow> action" where
  "getInfo now w1 w2 =
     block
       [try_except
          (block [log DEBUG SendingGetInfo, write_command (json_dumps (info_cmd now)) w1])
          (\<lambda>e. log ERROR (GetInfoFailed e)),
        try_except
          (block [log DEBUG SendingGetAll, write_command (json_dumps (properties_cmd now)) w2])
          (\<lambda>e. log ERROR (GetPropertiesFailed e))]"

section \<open>Sessions\<close>

text \<open>
  The arguments of \<open>run\<close> and the module globals it reads. \<open>port\<close> is the integer
  parsed by \<open>main\<close>.
\<close>

record config =
  broker :: "pystr option"
  port :: "int option"
  info_only :: bool
  connect :: bool
  disconnect :: bool
  ssid :: "pystr option"
  SF_DEVICE_ID :: "pystr option"
  SF_PRODUCT_ID :: pystr
  WIFI_PWD :: "pystr option"
  mqtt_user :: "pystr option"
  mqtt_pwd :: "pystr option"
  GLOBAL_INFO_POLLING_INTERVAL :: int

text \<open>Truth values of \<open>str\<close>-or-\<open>None\<close> and \<open>int\<close>-or-\<open>None\<close> in a condition.\<close>

definition truthy_str :: "pystr option \<Rightarrow> bool" where
  "truthy_str s = (case s of None \<Rightarrow> False | Some x \<Rightarrow> x \<noteq> [])"

definition truthy_int :: "int option \<Rightarrow> bool" where
  "truthy_int n = (case n of None \<Rightarrow> False | Some x \<Rightarrow> x \<noteq> 0)"

text \<open>A \<open>str\<close>-or-\<open>None\<close> inside an f-string.\<close>

definition fmt_opt :: "pystr option \<Rightarrow> pystr" where
  "fmt_opt s = (case s of None \<Rightarrow> py ''None'' | Some x \<Rightarrow> x)"

text \<open>
  What the awaited calls of one poll do: \<open>start_notify\<close>, the clock read and the two
  writes of \<open>getInfo\<close>, the sleep after them, and the call that follows the sleep
  (\<open>stop_notify\<close> in info-only mode; in the loop, the backoff sleep of the handler).
\<close>

record poll_env =
  start_notify_res :: "pyexc option"
  poll_clock :: int
  info_write :: "pyexc option"
  properties_write :: "pyexc option"
  sleep_res :: "pyexc option"
  stop_notify_res :: "pyexc option"
  backoff_res :: "pyexc option"

text \<open>The environment of one call of \<open>run\<close>.\<close>

record run_env =
  mqtt_connect_res :: "pyexc option"
  scan :: scan_env
  ble_connect_res :: "pyexc option"
  services :: "pystr list"
  clock :: int
  token_write :: "pyexc option"
  station_write :: "pyexc option"
  reply_publish :: "pyexc option"
  settle_sleep :: "pyexc option"
  info_poll :: poll_env
  iterations :: "poll_env list"

text \<open>
  \<open>local_mqtt_connect\<close>. The result of \<open>run\<close>'s assignment to \<open>mq_client\<close> is a client
  exactly when \<open>client.connect\<close> returned.
\<close>

definition local_mqtt_connect :: "config \<Rightarrow> pystr \<Rightarrow> int \<Rightarrow> pyexc option \<Rightarrow> action" where
  "local_mqtt_connect cfg b p res =
     try_except
       (block
          [case (mqtt_user cfg, mqtt_pwd cfg) of
             (Some u, Some _) \<Rightarrow> log DEBUG (UsingMqttAuth u)
           | _ \<Rightarrow> skip,
           call (MqttConnect b p) res])
       (\<lambda>e. log ERROR (MqttConnectionFailed e))"

text \<open>
  \<open>set_IoT_Url\<close>. The \<open>port\<close> argument is not used by the function. \<open>mq_client\<close> says
  whether the global holds a client.
\<close>

definition token_cmd :: "pystr \<Rightarrow> pystr option \<Rightarrow> pystr \<Rightarrow> pyobj" where
  "token_cmd b pwd s =
     PDict [(py ''iotUrl'', PStr b),
            (py ''messageId'', PStr (py ''1002'')),
            (py ''method'', PStr (py ''token'')),
            (py ''password'', (case pwd of None \<Rightarrow> PNone | Some p \<Rightarrow> PStr p)),
            (py ''ssid'', PStr s),
            (py ''timeZone'', PStr (py ''GMT+02:00'')),
            (py ''token'', PStr (py ''abcdefgh''))]"

definition station_cmd :: pystr where
  \<open>station_cmd = py ''{"messageId":"1003","method":"station"}''\<close>

definition register_reply :: "int \<Rightarrow> pystr" where
  \<open>register_reply now =
     py ''{"messageId":123,"timestamp":'' @ str_int now
       @ py '',"params":{"token":"abcdefgh","result":0}}''\<close>

definition register_topic :: "pystr \<Rightarrow> pystr option \<Rightarrow> pystr" where
  "register_topic pid deviceid =
     py ''iot/'' @ pid @ py ''/'' @ fmt_opt deviceid @ py ''/register/replay''"

definition set_IoT_Url :: "config \<Rightarrow> bool \<Rightarrow> pystr \<Rightarrow> pystr \<Rightarrow> pystr option \<Rightarrow> run_env \<Rightarrow> action" where
  "set_IoT_Url cfg mq_client b s deviceid env =
     (let cmd1 = json_dumps (token_cmd b (WIFI_PWD cfg) s);
          cmd2 = station_cmd;
          reply = register_reply (clock env)
      in block
        [try_except
           (case bytes_of_ords cmd1 of
              Inl e \<Rightarrow> raise e
            | Inr bs \<Rightarrow>
                block [log INFO (SettingIoTUrl cmd1),
                       call (WriteGattChar SF_COMMAND_CHAR bs) (token_write env)])
           (\<lambda>e. log ERROR (SettingUrlFailed e)),
         try_except
           (case bytes_of_ords cmd2 of
              Inl e \<Rightarrow> raise e
            | Inr bs \<Rightarrow>
                block [log INFO SettingStationMode,
                       call (WriteGattChar SF_COMMAND_CHAR bs) (station_write env)])
           (\<lambda>e. log ERROR (SettingWifiModeFailed e)),
         if mq_client
         then block [log INFO PublishingRegisterReply,
                     call (Publish (register_topic (SF_PRODUCT_ID cfg) deviceid) (PStr reply) True)
                       (reply_publish env)]
         else skip])"

text \<open>
  The polling loop of \<open>run\<close>, one list entry per iteration. \<open>getinfo\<close> is the loop's
  flag: it is cleared after \<open>getInfo\<close> and set again by the value the sleep returns, so
  an iteration left by an exception keeps the value the flag had when the exception was
  raised. The loop has no \<open>break\<close> and no \<open>return\<close>.
\<close>

fun continuous_loop :: "int \<Rightarrow> bool \<Rightarrow> poll_env list \<Rightarrow> action" where
  "continuous_loop interval getinfo [] = ([], Running)"
| "continuous_loop interval getinfo (it # its) =
     (let notify = call (StartNotify SF_NOTIFY_CHAR) (start_notify_res it);
          info = (if getinfo
                  then getInfo (poll_clock it) (info_write it) (properties_write it)
                  else skip);
          sleep = call (Sleep interval) (sleep_res it);
          body = block [notify, info, sleep];
          getinfo' = (if snd body = Done then True
                      else if snd notify = Done \<and> snd info = Done then False
                      else getinfo);
          iter = try_except body
                   (\<lambda>e. block [log ERROR (PollingLoopError e),
                               call (Sleep 5) (backoff_res it)])
      in case snd iter of
           Done \<Rightarrow> (fst iter @ fst (continuous_loop interval getinfo' its),
                    snd (continuous_loop interval getinfo' its))
         | _ \<Rightarrow> iter)"

text \<open>
  \<open>async with BleakClient(device) as bt_client: body\<close>: the connection is opened, and
  closed when the body is left.
\<close>

definition with_client :: "device \<Rightarrow> pyexc option \<Rightarrow> action \<Rightarrow> action" where
  "with_client d res body =
     (case res of
        Some e \<Rightarrow> call (BleConnect d) (Some e)
      | None \<Rightarrow>
          (case snd body of
             Running \<Rightarrow> (BleConnect d # fst body, Running)
           | r \<Rightarrow> (BleConnect d # fst body @ [BleDisconnect], r)))"

text \<open>The conditions of the two cloud-toggle branches of \<open>run\<close>.\<close>

definition disconnect_requested :: "config \<Rightarrow> bool" where
  "disconnect_requested cfg =
     (disconnect cfg \<and> truthy_str (broker cfg) \<and> truthy_int (port cfg)
      \<and> truthy_str (ssid cfg) \<and> truthy_str (SF_DEVICE_ID cfg))"

definition connect_requested :: "config \<Rightarrow> bool" where
  "connect_requested cfg = (connect cfg \<and> truthy_str (ssid cfg))"

text \<open>The body of the \<open>async with\<close> statement of \<open>run\<close>: the four branches in source order.\<close>

definition session :: "config \<Rightarrow> bool \<Rightarrow> run_env \<Rightarrow> action" where
  "session cfg mq_client env =
     block
       [log DEBUG ServicesAvailable,
        block (map (\<lambda>s. log DEBUG (Service s)) (services env)),
        if disconnect_requested cfg
        then block
          [log INFO SettingDisconnect,
           set_IoT_Url cfg mq_client (the (broker cfg)) (the (ssid cfg)) (SF_DEVICE_ID cfg) env,
           log SUCCESS DisconnectedFromCloud,
           call (Sleep 30) (settle_sleep env)]
        else if connect_requested cfg
        then block
          [log INFO SettingReconnect,
           set_IoT_Url cfg mq_client (py ''mq.zen-iot.com'') (the (ssid cfg)) (SF_DEVICE_ID cfg) env,
           log SUCCESS ReconnectedToCloud,
           call (Sleep 30) (settle_sleep env)]
        else if info_only cfg \<and> broker cfg = None
        then block
          [log INFO InfoOnlyMode,
           call (StartNotify SF_NOTIFY_CHAR) (start_notify_res (info_poll env)),
           getInfo (poll_clock (info_poll env)) (info_write (info_poll env))
             (properties_write (info_poll env)),
           call (Sleep 20) (sleep_res (info_poll env)),
           call (StopNotify SF_NOTIFY_CHAR) (stop_notify_res (info_poll env))]
        else block
          [log INFO (ContinuousMode (GLOBAL_INFO_POLLING_INTERVAL cfg)),
           continuous_loop (GLOBAL_INFO_POLLING_INTERVAL cfg) True (iterations env)]]"

text \<open>
  \<open>run\<close>. \<open>mq_client\<close> starts as \<open>None\<close> and is assigned only when both \<open>broker\<close> and
  \<open>port\<close> are truthy.
\<close>

definition run :: "config \<Rightarrow> run_env \<Rightarrow> action" where
  "run cfg env =
     (let use_mqtt = truthy_str (broker cfg) \<and> truthy_int (port cfg);
          mq_client = use_mqtt \<and> mqtt_connect_res env = None
      in block
        [if use_mqtt
         then block [log INFO (ConnectingMqtt (the (broker cfg)) (the (port cfg))),
                     local_mqtt_connect cfg (the (broker cfg)) (the (port cfg))
                       (mqtt_connect_res env)]
         else skip,
         case discover_device (SF_PRODUCT_ID cfg) (scan env) of
           Inl e \<Rightarrow> raise e
         | Inr None \<Rightarrow> block [log ERROR NoDeviceFound, log WARNING Troubleshooting]
         | Inr (Some d) \<Rightarrow>
             block
               [log SUCCESS (FoundDevice d),
                try_except
                  (block [log INFO (ConnectingTo d),
                          with_client d (ble_connect_res env) (session cfg mq_client env)])
                  (\<lambda>e. log ERROR (ConnectionFailed e))]])"

section \<open>Observations on a run\<close>

text \<open>
  The calls of a run are its events other than log records. An awaited call is
  \<open>uncancelled\<close> when it returns or raises an \<open>Exception\<close>; a poll is free of
  cancellation when each of its awaited calls is, and its backoff sleep (which can only
  be cancelled) returns.
\<close>

fun is_log :: "event \<Rightarrow> bool" where
  "is_log (Log l m) = True"
| "is_log _ = False"

definition calls :: "event list \<Rightarrow> event list" where
  "calls es = filter (\<lambda>ev. \<not> is_log ev) es"

definition uncancelled :: "pyexc option \<Rightarrow> bool" where
  "uncancelled r = (case r of None \<Rightarrow> True | Some e \<Rightarrow> is_Exception e)"

definition no_cancel :: "poll_env \<Rightarrow> bool" where
  "no_cancel it =
     (uncancelled (start_notify_res it) \<and> uncancelled (info_write it) \<and>
      uncancelled (properties_write it) \<and> uncancelled (sleep_res it) \<and>
      backoff_res it = None)"

text \<open>
  A poll is steady when \<open>start_notify\<close> and the polling sleep return and no command
  write is cancelled.
\<close>

definition steady :: "poll_env \<Rightarrow> bool" where
  "steady it =
     (start_notify_res it = None \<and> uncancelled (info_write it) \<and>
      uncancelled (properties_write it) \<and> sleep_res it = None)"

text \<open>A poll in which every awaited call returns, and a configuration with defaults.\<close>

definition quiet_poll :: poll_env where
  "quiet_poll =
     \<lparr>start_notify_res = None, poll_clock = 1700000000, info_write = None,
      properties_write = None, sleep_res = None, stop_notify_res = None,
      backoff_res = None\<rparr>"

definition default_config :: config where
  "default_config =
     \<lparr>broker = None, port = None, info_only = False, connect = False, disconnect = False,
      ssid = None, SF_DEVICE_ID = None, SF_PRODUCT_ID = py ''ja72U0ha'', WIFI_PWD = None,
      mqtt_user = None, mqtt_pwd = None, GLOBAL_INFO_POLLING_INTERVAL = 60\<rparr>"

definition quiet_env :: run_env where
  "quiet_env =
     \<lparr>mqtt_connect_res = None,
      scan = \<lparr>discover = Inr [hub_b], filter_scan = Inr [hub_b]\<rparr>,
      ble_connect_res = None, services = [], clock = 1700000000,
      token_write = None, station_write = None, reply_publish = None,
      settle_sleep = None, info_poll = quiet_poll, iterations = []\<rparr>"

text \<open>The error record a guarded call leaves when it raises.\<close>

definition failure_log :: "(pyexc \<Rightarrow> logmsg) \<Rightarrow> pyexc option \<Rightarrow> event list" where
  "failure_log f r = (case r of None \<Rightarrow> [] | Some e \<Rightarrow> [Log ERROR (f e)])"

text \<open>
  The broker address a cloud-toggle run sends to the hub: the local broker in
  disconnect mode, the vendor's in connect mode (the literal of \<open>run\<close>).
\<close>

definition toggle_broker :: "config \<Rightarrow> pystr" where
  "toggle_broker cfg =
     (if disconnect_requested cfg then the (broker cfg) else py ''mq.zen-iot.com'')"

text \<open>
  A disconnect invocation (\<open>-d -w HomeWifi -b 192.168.1.100:1883\<close> with \<open>WIFI_PWD\<close> and
  \<open>SF_DEVICE_ID\<close> set) and a connect invocation that also names a broker
  (\<open>-c -w HomeWifi -b 192.168.1.100:1883\<close>).
\<close>

definition disconnect_config :: config where
  "disconnect_config =
     default_config\<lparr>disconnect := True, broker := Some (py ''192.168.1.100''), port := Some 1883,
       ssid := Some (py ''HomeWifi''), SF_DEVICE_ID := Some (py ''dev1''),
       WIFI_PWD := Some (py ''secret'')\<rparr>"

definition connect_config :: config where
  "connect_config =
     default_config\<lparr>connect := True, broker := Some (py ''192.168.1.100''), port := Some 1883,
       ssid := Some (py ''HomeWifi'')\<rparr>"

text \<open>
  \<open>emits_only P a\<close>: every event of the action satisfies \<open>P\<close>. The first log record of
  the info-only branch marks it in a run.
\<close>

definition emits_only :: "(event \<Rightarrow> bool) \<Rightarrow> action \<Rightarrow> bool" where
  "emits_only P a = list_all P (fst a)"

definition not_info_mark :: "event \<Rightarrow> bool" where
  "not_info_mark ev = (ev \<noteq> Log INFO InfoOnlyMode)"

text \<open>
  An invocation with the info flag and a broker (\<open>-i -b 192.168.1.100:1883\<close>), and one
  that names the connect flag after the info flag as well
  (\<open>-i -c -w HomeWifi -b 192.168.1.100:1883\<close>).
\<close>

definition info_broker_config :: config where
  "info_broker_config =
     default_config\<lparr>info_only := True, broker := Some (py ''192.168.1.100''), port := Some 1883\<rparr>"

definition info_connect_config :: config where
  "info_connect_config = connect_config\<lparr>info_only := True\<rparr>"

section \<open>The decoders of the notification handler\<close>

text \<open>
  \<open>bytes.decode("utf8")\<close>: the strict decoder. \<open>None\<close> stands for \<open>UnicodeDecodeError\<close>.
  Overlong forms, surrogates and code points above \<open>0x10FFFF\<close> are rejected.
\<close>

definition cont :: "nat \<Rightarrow> bool" where
  "cont b = (128 \<le> b \<and> b \<le> 191)"

fun utf8_points :: "nat list \<Rightarrow> pystr option" where
  "utf8_points [] = Some []"
| "utf8_points (b0 # bs) =
     (if b0 < 128 then map_option ((#) b0) (utf8_points bs)
      else if 194 \<le> b0 \<and> b0 \<le> 223 then
        (case bs of
           b1 # r \<Rightarrow>
             if cont b1
             then map_option ((#) ((b0 - 192) * 64 + (b1 - 128))) (utf8_points r)
             else None
         | _ \<Rightarrow> None)
      else if 224 \<le> b0 \<and> b0 \<le> 239 then
        (case bs of
           b1 # b2 # r \<Rightarrow>
             if (if b0 = 224 then 160 \<le> b1 \<and> b1 \<le> 191
                 else if b0 = 237 then 128 \<le> b1 \<and> b1 \<le> 159
                 else cont b1) \<and> cont b2
             then map_option ((#) ((b0 - 224) * 4096 + (b1 - 128) * 64 + (b2 - 128)))
                    (utf8_points r)
             else None
         | _ \<Rightarrow> None)
      else if 240 \<le> b0 \<and> b0 \<le> 244 then
        (case bs of
           b1 # b2 # b3 # r \<Rightarrow>
             if (if b0 = 240 then 144 \<le> b1 \<and> b1 \<le> 191
                 else if b0 = 244 then 128 \<le> b1 \<and> b1 \<le> 143
                 else cont b1) \<and> cont b2 \<and> cont b3
             then map_option
                    ((#) ((b0 - 240) * 262144 + (b1 - 128) * 4096 + (b2 - 128) * 64 + (b3 - 128)))
                    (utf8_points r)
             else None
         | _ \<Rightarrow> None)
      else None)"

definition utf8_decode :: "byte list \<Rightarrow> pystr option" where
  "utf8_decode data = utf8_points (map unat data)"

text \<open>
  What the program takes from its libraries and its interpreter without fixing it in
  its own text:
  \<^item> \<open>float_of\<close>: the \<open>repr\<close> of \<open>float(text)\<close> for a JSON number text or one of
    \<open>NaN\<close>, \<open>Infinity\<close>, \<open>-Infinity\<close> (floating-point rounding);
  \<^item> \<open>int_refused\<close>: the integer texts \<open>int(text)\<close> refuses with a \<open>ValueError\<close> (the
    interpreter's limit on the digits of an \<open>int\<close>);
  \<^item> \<open>depth_limit\<close>: the number of containers \<open>json.loads\<close> can have open at once; one
    more is a \<open>RecursionError\<close>;
  \<^item> \<open>repr_of\<close>: \<open>str(x)\<close> for a list or a dict;
  \<^item> \<open>bad_topic\<close>: the topics the MQTT client's \<open>publish\<close> refuses with a
    \<open>ValueError\<close>;
  \<^item> \<open>bad_payload\<close>: the payloads of a type it sends (\<open>str\<close>, \<open>int\<close>, \<open>float\<close>,
    \<open>None\<close>) that it refuses with a \<open>ValueError\<close>.
\<close>

record pylib =
  float_of :: "pystr \<Rightarrow> pystr"
  int_refused :: "pystr \<Rightarrow> bool"
  depth_limit :: nat
  repr_of :: "pyobj \<Rightarrow> pystr"
  bad_topic :: "pystr \<Rightarrow> bool"
  bad_payload :: "pyobj \<Rightarrow> bool"

text \<open>
  \<open>json.loads\<close> on a \<open>str\<close>. The text is read once from left to right: the next
  token is scanned, and the decoder takes it or fails, before anything after it is
  looked at. So the first fault in the text decides the exception: a malformed text is
  a \<open>JSONDecodeError\<close>, a container opened beyond the depth limit a \<open>RecursionError\<close>,
  a refused integer text a \<open>ValueError\<close>.
\<close>

datatype token =
    LBRACE | RBRACE | LBRACK | RBRACK | COLON | COMMA
  | SCALAR pyobj
  | INTEGER pystr

definition is_digit :: "nat \<Rightarrow> bool" where
  "is_digit c = (48 \<le> c \<and> c \<le> 57)"

definition is_ws :: "nat \<Rightarrow> bool" where
  "is_ws c = (c = 32 \<or> c = 9 \<or> c = 10 \<or> c = 13)"

definition hex_val :: "nat \<Rightarrow> nat option" where
  "hex_val c =
     (if 48 \<le> c \<and> c \<le> 57 then Some (c - 48)
      else if 97 \<le> c \<and> c \<le> 102 then Some (c - 87)
      else if 65 \<le> c \<and> c \<le> 70 then Some (c - 55)
      else None)"

text \<open>The four hexadecimal digits of a \<open>\uXXXX\<close> escape, and what follows them.\<close>

definition hex4_val :: "pystr \<Rightarrow> (nat \<times> pystr) option" where
  "hex4_val cs =
     (case cs of
        a # b # c # d # r \<Rightarrow>
          (case (hex_val a, hex_val b, hex_val c, hex_val d) of
             (Some x, Some y, Some z, Some w) \<Rightarrow> Some (x * 4096 + y * 256 + z * 16 + w, r)
           | _ \<Rightarrow> None)
      | _ \<Rightarrow> None)"

definition simple_escape :: "nat \<Rightarrow> nat option" where
  "simple_escape c =
     (if c = 34 then Some 34
      else if c = 92 then Some 92
      else if c = 47 then Some 47
      else if c = 98 then Some 8
      else if c = 102 then Some 12
      else if c = 110 then Some 10
      else if c = 114 then Some 13
      else if c = 116 then Some 9
      else None)"

text \<open>
  One escape sequence after its backslash: the code point and the rest. A high
  surrogate followed by the escape of a low surrogate is one code point.
\<close>

definition scan_escape :: "pystr \<Rightarrow> (nat \<times> pystr) option" where
  "scan_escape cs =
     (case cs of
        [] \<Rightarrow> None
      | c # r \<Rightarrow>
          if c = 117 then
            (case hex4_val r of
               None \<Rightarrow> None
             | Some (u, r1) \<Rightarrow>
                 if 55296 \<le> u \<and> u \<le> 56319 then
                   (case r1 of
                      b # v # r2 \<Rightarrow>
                        if b = 92 \<and> v = 117 then
                          (case hex4_val r2 of
                             None \<Rightarrow> None
                           | Some (l, r3) \<Rightarrow>
                               if 56320 \<le> l \<and> l \<le> 57343
                               then Some (65536 + (u - 55296) * 1024 + (l - 56320), r3)
                               else Some (u, r1))
                        else Some (u, r1)
                    | _ \<Rightarrow> Some (u, r1))
                 else Some (u, r1))
          else (case simple_escape c of None \<Rightarrow> None | Some x \<Rightarrow> Some (x, r)))"

lemma scan_escape_shorter: "scan_escape cs = Some (x, r) \<Longrightarrow> length r < length cs"
  by (auto simp: scan_escape_def hex4_val_def
      split: list.splits option.splits if_splits prod.splits)

text \<open>
  The body of a string literal after its opening quote, up to the closing quote.
  A control character inside the literal is an error (\<open>strict=True\<close>).
\<close>

function scan_string :: "pystr \<Rightarrow> (pystr \<times> pystr) option" where
  "scan_string [] = None"
| "scan_string (c # r) =
     (if c = 34 then Some ([], r)
      else if c = 92 then
        (case scan_escape r of
           None \<Rightarrow> None
         | Some (x, r') \<Rightarrow>
             (case scan_string r' of None \<Rightarrow> None | Some (s, rest) \<Rightarrow> Some (x # s, rest)))
      else if c < 32 then None
      else (case scan_string r of None \<Rightarrow> None | Some (s, rest) \<Rightarrow> Some (c # s, rest)))"
  by pat_completeness auto
termination
  by (relation "measure length") (auto dest: scan_escape_shorter)

declare scan_string.simps(2) [simp del]

text \<open>The constants \<open>null\<close>, \<open>true\<close>, \<open>false\<close>, \<open>NaN\<close>, \<open>Infinity\<close> and \<open>-Infinity\<close>.\<close>

definition scan_literal :: "pylib \<Rightarrow> pystr \<Rightarrow> (pyobj \<times> pystr) option" where
  "scan_literal lib cs =
     (if startswith cs (py ''null'') then Some (PNone, drop 4 cs)
      else if startswith cs (py ''true'') then Some (PBool True, drop 4 cs)
      else if startswith cs (py ''false'') then Some (PBool False, drop 5 cs)
      else if startswith cs (py ''NaN'') then Some (PFloat (float_of lib (py ''NaN'')), drop 3 cs)
      else if startswith cs (py ''Infinity'')
      then Some (PFloat (float_of lib (py ''Infinity'')), drop 8 cs)
      else if startswith cs (py ''-Infinity'')
      then Some (PFloat (float_of lib (py ''-Infinity'')), drop 9 cs)
      else None)"

text \<open>
  A number text: an optional minus sign, \<open>0\<close> or a digit string without leading zero,
  an optional fraction, an optional exponent. The result is the text, whether it has a
  fraction or an exponent (then it denotes a \<open>float\<close>), and the rest.
\<close>

definition int_part :: "pystr \<Rightarrow> (pystr \<times> pystr) option" where
  "int_part cs =
     (case cs of
        [] \<Rightarrow> None
      | c # r \<Rightarrow>
          if c = 48 then Some ([c], r)
          else if 49 \<le> c \<and> c \<le> 57 then Some (c # takeWhile is_digit r, dropWhile is_digit r)
          else None)"

definition frac_part :: "pystr \<Rightarrow> pystr \<times> pystr" where
  "frac_part cs =
     (case cs of
        p # d # r \<Rightarrow>
          if p = 46 \<and> is_digit d then (p # d # takeWhile is_digit r, dropWhile is_digit r)
          else ([], cs)
      | _ \<Rightarrow> ([], cs))"

definition exp_part :: "pystr \<Rightarrow> pystr \<times> pystr" where
  "exp_part cs =
     (case cs of
        e # s # d # r \<Rightarrow>
          if (e = 101 \<or> e = 69) \<and> (s = 43 \<or> s = 45) \<and> is_digit d
          then (e # s # d # takeWhile is_digit r, dropWhile is_digit r)
          else if (e = 101 \<or> e = 69) \<and> is_digit s
          then (e # s # takeWhile is_digit (d # r), dropWhile is_digit (d # r))
          else ([], cs)
      | [e, s] \<Rightarrow> if (e = 101 \<or> e = 69) \<and> is_digit s then ([e, s], []) else ([], cs)
      | _ \<Rightarrow> ([], cs))"

definition scan_number :: "pystr \<Rightarrow> (pystr \<times> bool \<times> pystr) option" where
  "scan_number cs =
     (let (sign, r0) = (case cs of c # r \<Rightarrow> if c = 45 then ([c], r) else ([], cs) | [] \<Rightarrow> ([], cs))
      in case int_part r0 of
           None \<Rightarrow> None
         | Some (ip, r1) \<Rightarrow>
             (let (fp, r2) = frac_part r1; (ep, r3) = exp_part r2
              in Some (sign @ ip @ fp @ ep, fp \<noteq> [] \<or> ep \<noteq> [], r3)))"

text \<open>\<open>int(text)\<close> for the text of an integer.\<close>

definition nat_of_digits :: "pystr \<Rightarrow> nat" where
  "nat_of_digits ds = foldl (\<lambda>a d. 10 * a + (d - 48)) 0 ds"

definition int_of_text :: "pystr \<Rightarrow> int" where
  "int_of_text t =
     (case t of
        c # r \<Rightarrow> if c = 45 then - int (nat_of_digits r) else int (nat_of_digits t)
      | [] \<Rightarrow> 0)"

lemma scan_string_shorter: "scan_string cs = Some (s, r) \<Longrightarrow> length r < length cs"
proof (induction cs arbitrary: s r rule: scan_string.induct)
  case 1
  then show ?case by simp
next
  case (2 c r0)
  show ?case
  proof (cases "c = 34")
    case True
    with 2 show ?thesis by (simp add: scan_string.simps(2))
  next
    case False
    show ?thesis
    proof (cases "c = 92")
      case True
      then obtain x r' s' where e: "scan_escape r0 = Some (x, r')"
        and t: "scan_string r' = Some (s', r)"
        using "2.prems" False
        by (auto simp: scan_string.simps(2) split: option.splits)
      have "length r < length r'" using "2.IH"(1) [OF False True e refl t] by simp
      with scan_escape_shorter [OF e] show ?thesis by simp
    next
      case c92: False
      then have lt: "\<not> c < 32" using "2.prems" False
        by (auto simp: scan_string.simps(2) split: if_splits)
      obtain s' where t: "scan_string r0 = Some (s', r)"
        using "2.prems" False c92 lt
        by (auto simp: scan_string.simps(2) split: option.splits)
      have "length r < length r0" using "2.IH"(2) [OF False c92 lt t] by simp
      then show ?thesis by simp
    qed
  qed
qed

lemma scan_literal_shorter: "scan_literal lib cs = Some (v, r) \<Longrightarrow> length r < length cs"
  by (cases cs) (auto simp: scan_literal_def startswith_def split: if_splits)

lemma dropWhile_length: "length (dropWhile P xs) \<le> length xs"
  by (induction xs) auto

lemma int_part_shorter: "int_part cs = Some (ip, r) \<Longrightarrow> length r < length cs"
  using dropWhile_length [of is_digit "tl cs"]
  by (cases cs) (auto simp: int_part_def split: if_splits)

lemma frac_part_shorter: "frac_part cs = (fp, r) \<Longrightarrow> length r \<le> length cs"
  using dropWhile_length [of is_digit "drop 2 cs"]
  by (auto simp: frac_part_def split: list.splits if_splits)

lemma exp_part_shorter: "exp_part cs = (ep, r) \<Longrightarrow> length r \<le> length cs"
  using dropWhile_length [of is_digit "drop 3 cs"] dropWhile_length [of is_digit "drop 3 cs"]
  by (auto simp: exp_part_def le_Suc_eq dropWhile_length split: list.splits if_splits)

lemma scan_number_shorter: "scan_number cs = Some (t, fl, r) \<Longrightarrow> length r < length cs"
proof -
  assume a: "scan_number cs = Some (t, fl, r)"
  let ?r0 = "snd (case cs of c # r \<Rightarrow> if c = 45 then ([c], r) else ([], cs) | [] \<Rightarrow> ([], cs))"
  have r0: "length ?r0 \<le> length cs" by (cases cs) auto
  from a obtain ip r1 where ip: "int_part ?r0 = Some (ip, r1)"
    by (auto simp: scan_number_def Let_def split: option.splits prod.splits)
  obtain fp r2 where fp: "frac_part r1 = (fp, r2)" by (cases "frac_part r1")
  obtain ep r3 where ep: "exp_part r2 = (ep, r3)" by (cases "exp_part r2")
  have "r = r3" using a ip fp ep
    by (auto simp: scan_number_def Let_def split: option.splits prod.splits)
  then show ?thesis
    using int_part_shorter [OF ip] frac_part_shorter [OF fp] exp_part_shorter [OF ep] r0
    by simp
qed

text \<open>
  The token at the head of a text that does not start with white space, and the rest.
  A string, a constant and a number with a fraction or an exponent are complete
  objects; the text of an integer is converted when the decoder takes it as a value.
\<close>

definition next_token :: "pylib \<Rightarrow> pystr \<Rightarrow> (token \<times> pystr) option" where
  "next_token lib cs =
     (case cs of
        [] \<Rightarrow> None
      | c # r \<Rightarrow>
          if c = 123 then Some (LBRACE, r)
          else if c = 125 then Some (RBRACE, r)
          else if c = 91 then Some (LBRACK, r)
          else if c = 93 then Some (RBRACK, r)
          else if c = 58 then Some (COLON, r)
          else if c = 44 then Some (COMMA, r)
          else if c = 34 then
            (case scan_string r of
               None \<Rightarrow> None
             | Some (s, r') \<Rightarrow> Some (SCALAR (PStr s), r'))
          else
            (case scan_literal lib cs of
               Some (v, r') \<Rightarrow> Some (SCALAR v, r')
             | None \<Rightarrow>
                 (case scan_number cs of
                    None \<Rightarrow> None
                  | Some (t, fl, r') \<Rightarrow>
                      Some (if fl then SCALAR (PFloat (float_of lib t)) else INTEGER t, r'))))"

lemma next_token_shorter: "next_token lib cs = Some (tok, r) \<Longrightarrow> length r < length cs"
  by (cases cs)
     (auto simp: next_token_def split: if_splits option.splits
       dest: scan_string_shorter scan_literal_shorter scan_number_shorter)

text \<open>
  A \<open>dict\<close> built from the pairs of an object in text order: a repeated key keeps its
  first position and takes the later value.
\<close>

fun dict_set :: "(pystr \<times> pyobj) list \<Rightarrow> pystr \<Rightarrow> pyobj \<Rightarrow> (pystr \<times> pyobj) list" where
  "dict_set [] k v = [(k, v)]"
| "dict_set ((k', v') # d) k v =
     (if k' = k then (k', v) # d else (k', v') # dict_set d k v)"

definition dict_of :: "(pystr \<times> pyobj) list \<Rightarrow> (pystr \<times> pyobj) list" where
  "dict_of ps = foldl (\<lambda>d (k, v). dict_set d k v) [] ps"

text \<open>
  The parser over tokens keeps the containers that are still open (the elements or
  pairs read so far, latest first) and what may come next.
\<close>

datatype frame =
    ArrF "pyobj list"
  | ObjF "(pystr \<times> pyobj) list"
  | KeyF "(pystr \<times> pyobj) list" pystr

datatype expect = EValue | EValueOrClose | EKeyOrClose | EKey | EColon | ESep | EEnd pyobj

text \<open>A complete value goes into the innermost open container, or ends the text.\<close>

fun reduce :: "pyobj \<Rightarrow> frame list \<Rightarrow> pyexc + frame list \<times> expect" where
  "reduce v [] = Inr ([], EEnd v)"
| "reduce v (ArrF xs # st) = Inr (ArrF (v # xs) # st, ESep)"
| "reduce v (KeyF ps k # st) = Inr (ObjF ((k, v) # ps) # st, ESep)"
| "reduce v (ObjF ps # st) = Inl JSONDecodeError"

text \<open>A token where a value is expected, with \<open>st\<close> the containers that are open.\<close>

fun start_value :: "pylib \<Rightarrow> frame list \<Rightarrow> token \<Rightarrow> pyexc + frame list \<times> expect" where
  "start_value lib st (SCALAR v) = reduce v st"
| "start_value lib st (INTEGER t) =
     (if int_refused lib t then Inl ValueError else reduce (PInt (int_of_text t)) st)"
| "start_value lib st LBRACK =
     (if depth_limit lib \<le> length st then Inl RecursionError
      else Inr (ArrF [] # st, EValueOrClose))"
| "start_value lib st LBRACE =
     (if depth_limit lib \<le> length st then Inl RecursionError
      else Inr (ObjF [] # st, EKeyOrClose))"
| "start_value lib st _ = Inl JSONDecodeError"

fun step :: "pylib \<Rightarrow> frame list \<times> expect \<Rightarrow> token \<Rightarrow> pyexc + frame list \<times> expect" where
  "step lib (st, EValue) tok = start_value lib st tok"
| "step lib (ArrF xs # st, EValueOrClose) RBRACK = reduce (PList (rev xs)) st"
| "step lib (st, EValueOrClose) tok = start_value lib st tok"
| "step lib (ObjF ps # st, EKeyOrClose) (SCALAR (PStr k)) = Inr (KeyF ps k # st, EColon)"
| "step lib (ObjF ps # st, EKeyOrClose) RBRACE = reduce (PDict (dict_of (rev ps))) st"
| "step lib (ObjF ps # st, EKey) (SCALAR (PStr k)) = Inr (KeyF ps k # st, EColon)"
| "step lib (st, EColon) COLON = Inr (st, EValue)"
| "step lib (ArrF xs # st, ESep) COMMA = Inr (ArrF xs # st, EValue)"
| "step lib (ArrF xs # st, ESep) RBRACK = reduce (PList (rev xs)) st"
| "step lib (ObjF ps # st, ESep) COMMA = Inr (ObjF ps # st, EKey)"
| "step lib (ObjF ps # st, ESep) RBRACE = reduce (PDict (dict_of (rev ps))) st"
| "step lib _ _ = Inl JSONDecodeError"

text \<open>The decoder from a state over a text, white space between tokens skipped.\<close>

function scan_text ::
  "pylib \<Rightarrow> frame list \<times> expect \<Rightarrow> pystr \<Rightarrow> pyexc + frame list \<times> expect" where
  "scan_text lib s [] = Inr s"
| "scan_text lib s (c # r) =
     (if is_ws c then scan_text lib s r
      else
        (case next_token lib (c # r) of
           None \<Rightarrow> Inl JSONDecodeError
         | Some (tok, r') \<Rightarrow>
             (case step lib s tok of
                Inl e \<Rightarrow> Inl e
              | Inr s' \<Rightarrow> scan_text lib s' r')))"
  by pat_completeness auto
termination
  by (relation "measure (\<lambda>(lib, s, cs). length cs)") (auto dest: next_token_shorter)

declare scan_text.simps(2) [simp del]

text \<open>
  \<open>json.loads(text)\<close>. A text that starts with a byte order mark is refused, and so is
  a text that ends before its value is complete.
\<close>

definition json_loads :: "pylib \<Rightarrow> pystr \<Rightarrow> pyexc + pyobj" where
  "json_loads lib text =
     (if startswith text [65279] then Inl JSONDecodeError
      else case scan_text lib ([], EValue) text of
             Inl e \<Rightarrow> Inl e
           | Inr ([], EEnd v) \<Rightarrow> Inr v
           | Inr _ \<Rightarrow> Inl JSONDecodeError)"

text \<open>
  A library for examples: number texts that are already the shortest \<open>repr\<close> of their
  value (such as \<open>52.1\<close>) denote themselves, the constants denote \<open>nan\<close>, \<open>inf\<close>
  and \<open>-inf\<close>, an integer text of more than 4300 digits is refused, 1000 containers may
  be open at once, and the MQTT client refuses an empty topic and a topic with a
  wildcard. \<open>str\<close> of a list or dict is not used by the examples.
\<close>

definition plain_float :: "pystr \<Rightarrow> pystr" where
  "plain_float t =
     (if t = py ''NaN'' then py ''nan''
      else if t = py ''Infinity'' then py ''inf''
      else if t = py ''-Infinity'' then py ''-inf''
      else t)"

definition example_lib :: pylib where
  "example_lib =
     \<lparr>float_of = plain_float,
      int_refused = (\<lambda>t. 4300 < length (filter is_digit t)),
      depth_limit = 1000,
      repr_of = (\<lambda>v. []),
      bad_topic = (\<lambda>topic. topic = [] \<or> 43 \<in> set topic \<or> 35 \<in> set topic),
      bad_payload = (\<lambda>payload. False)\<rparr>"

section \<open>The notification handler\<close>

text \<open>
  The operations of \<open>handle_rx\<close> on the decoded payload, which may be any JSON value.
  Each is the Python operation on every type of object, with the exception it raises
  where the type does not support it.
\<close>

fun is_sub :: "pystr \<Rightarrow> pystr \<Rightarrow> bool" where
  "is_sub k [] = (k = [])"
| "is_sub k (c # s) = (startswith (c # s) k \<or> is_sub k s)"

text \<open>\<open>key in obj\<close> for a \<open>str\<close> key.\<close>

fun py_contains :: "pystr \<Rightarrow> pyobj \<Rightarrow> pyexc + bool" where
  "py_contains k (PDict kvs) = Inr (map_of kvs k \<noteq> None)"
| "py_contains k (PList xs) = Inr (PStr k \<in> set xs)"
| "py_contains k (PStr s) = Inr (is_sub k s)"
| "py_contains k _ = Inl TypeError"

text \<open>\<open>obj[key]\<close> for a \<open>str\<close> key.\<close>

fun py_getitem :: "pyobj \<Rightarrow> pystr \<Rightarrow> pyexc + pyobj" where
  "py_getitem (PDict kvs) k = (case map_of kvs k of None \<Rightarrow> Inl KeyError | Some v \<Rightarrow> Inr v)"
| "py_getitem _ k = Inl TypeError"

fun py_len :: "pyobj \<Rightarrow> pyexc + nat" where
  "py_len (PDict kvs) = Inr (length kvs)"
| "py_len (PList xs) = Inr (length xs)"
| "py_len (PStr s) = Inr (length s)"
| "py_len _ = Inl TypeError"

text \<open>\<open>obj.items()\<close>.\<close>

fun py_items :: "pyobj \<Rightarrow> pyexc + (pystr \<times> pyobj) list" where
  "py_items (PDict kvs) = Inr kvs"
| "py_items _ = Inl AttributeError"

text \<open>\<open>for x in obj\<close>: the elements of a list, the characters of a string, the keys of a dict.\<close>

fun py_iter :: "pyobj \<Rightarrow> pyexc + pyobj list" where
  "py_iter (PList xs) = Inr xs"
| "py_iter (PStr s) = Inr (map (\<lambda>c. PStr [c]) s)"
| "py_iter (PDict kvs) = Inr (map (\<lambda>kv. PStr (fst kv)) kvs)"
| "py_iter _ = Inl TypeError"

text \<open>\<open>obj.pop(key)\<close> for a \<open>str\<close> key: the value, and the dict without the key.\<close>

fun py_pop :: "pyobj \<Rightarrow> pystr \<Rightarrow> pyexc + pyobj \<times> (pystr \<times> pyobj) list" where
  "py_pop (PDict kvs) k =
     (case map_of kvs k of
        None \<Rightarrow> Inl KeyError
      | Some v \<Rightarrow> Inr (v, filter (\<lambda>kv. fst kv \<noteq> k) kvs))"
| "py_pop (PList xs) k = Inl TypeError"
| "py_pop _ k = Inl AttributeError"

text \<open>\<open>isinstance(val, (int, float))\<close>; \<open>bool\<close> is a subclass of \<open>int\<close>.\<close>

fun is_number :: "pyobj \<Rightarrow> bool" where
  "is_number (PInt i) = True"
| "is_number (PFloat r) = True"
| "is_number (PBool b) = True"
| "is_number _ = False"

text \<open>An object inside an f-string: \<open>str(x)\<close>.\<close>

fun py_str :: "pylib \<Rightarrow> pyobj \<Rightarrow> pystr" where
  "py_str lib PNone = py ''None''"
| "py_str lib (PBool b) = (if b then py ''True'' else py ''False'')"
| "py_str lib (PInt i) = str_int i"
| "py_str lib (PFloat r) = r"
| "py_str lib (PStr s) = s"
| "py_str lib v = repr_of lib v"

text \<open>
  \<open>mq_client.publish(topic, payload)\<close>: the client checks the topic, then the type of
  the payload (a list or a dict is a \<open>TypeError\<close>), then the payload; a message that
  passes is handed over.
\<close>

fun is_container :: "pyobj \<Rightarrow> bool" where
  "is_container (PList xs) = True"
| "is_container (PDict kvs) = True"
| "is_container _ = False"

definition mq_publish :: "pylib \<Rightarrow> pystr \<Rightarrow> pyobj \<Rightarrow> action" where
  "mq_publish lib topic payload =
     (if bad_topic lib topic then raise ValueError
      else if is_container payload then raise TypeError
      else if bad_payload lib payload then raise ValueError
      else call (Publish topic payload False) None)"

definition telemetry_topic :: "pystr \<Rightarrow> pystr" where
  "telemetry_topic prop = py ''solarflow-hub/telemetry/'' @ prop"

definition state_topic :: "config \<Rightarrow> pystr" where
  "state_topic cfg = SF_PRODUCT_ID cfg @ py ''/'' @ fmt_opt (SF_DEVICE_ID cfg) @ py ''/state''"

definition battery_topic :: "pylib \<Rightarrow> pyobj \<Rightarrow> pystr \<Rightarrow> pystr" where
  "battery_topic lib sn prop =
     py ''solarflow-hub/telemetry/batteries/'' @ py_str lib sn @ py ''/'' @ prop"

text \<open>The body of the loop over \<open>props.items()\<close>.\<close>

definition publish_property :: "pylib \<Rightarrow> pystr \<times> pyobj \<Rightarrow> action" where
  "publish_property lib kv =
     block [if is_number (snd kv) then log DEBUG (PropertyValue (fst kv) (snd kv)) else skip,
            mq_publish lib (telemetry_topic (fst kv)) (snd kv)]"

text \<open>The body of the loop over \<open>packdata\<close>.\<close>

definition publish_pack :: "pylib \<Rightarrow> pyobj \<Rightarrow> action" where
  "publish_pack lib pack =
     (case py_pop pack (py ''sn'') of
        Inl e \<Rightarrow> raise e
      | Inr (sn, rest) \<Rightarrow>
          block [log DEBUG (PackSN sn),
                 block (map (\<lambda>kv. mq_publish lib (battery_topic lib sn (fst kv)) (snd kv)) rest)])"

text \<open>The three parts of the \<open>try\<close> body of \<open>handle_rx\<close> after the payload is decoded.\<close>

definition info_part :: "pyobj \<Rightarrow> action" where
  "info_part payload =
     (case py_contains (py ''method'') payload of
        Inl e \<Rightarrow> raise e
      | Inr False \<Rightarrow> skip
      | Inr True \<Rightarrow>
          (case py_getitem payload (py ''method'') of
             Inl e \<Rightarrow> raise e
           | Inr m \<Rightarrow>
               if m = PStr (py ''getInfo-rsp'')
               then block
                 [case py_getitem payload (py ''deviceId'') of
                    Inl e \<Rightarrow> raise e | Inr v \<Rightarrow> log SUCCESS (DeviceID v),
                  case py_getitem payload (py ''deviceSn'') of
                    Inl e \<Rightarrow> raise e | Inr v \<Rightarrow> log SUCCESS (DeviceSN v)]
               else skip))"

definition properties_part :: "pylib \<Rightarrow> config \<Rightarrow> pyobj \<Rightarrow> action" where
  "properties_part lib cfg payload =
     (case py_contains (py ''properties'') payload of
        Inl e \<Rightarrow> raise e
      | Inr False \<Rightarrow> skip
      | Inr True \<Rightarrow>
          (case py_getitem payload (py ''properties'') of
             Inl e \<Rightarrow> raise e
           | Inr props \<Rightarrow>
               (case py_len props of
                  Inl e \<Rightarrow> raise e
                | Inr n \<Rightarrow>
                    block
                      [log DEBUG (PropertiesReceived n),
                       case py_items props of
                         Inl e \<Rightarrow> raise e
                       | Inr items \<Rightarrow> block (map (publish_property lib) items),
                       mq_publish lib (state_topic cfg) (PStr (json_dumps props))])))"

definition packdata_part :: "pylib \<Rightarrow> pyobj \<Rightarrow> action" where
  "packdata_part lib payload =
     (case py_contains (py ''packData'') payload of
        Inl e \<Rightarrow> raise e
      | Inr False \<Rightarrow> skip
      | Inr True \<Rightarrow>
          (case py_getitem payload (py ''packData'') of
             Inl e \<Rightarrow> raise e
           | Inr packdata \<Rightarrow>
               (case py_len packdata of
                  Inl e \<Rightarrow> raise e
                | Inr n \<Rightarrow>
                    if n > 0
                    then block
                      [log INFO (BatteryPacks n),
                       case py_iter packdata of
                         Inl e \<Rightarrow> raise e
                       | Inr packs \<Rightarrow> block (map (publish_pack lib) packs)]
                    else skip)))"

text \<open>
  \<open>handle_rx\<close>. \<open>mq_client\<close> says whether the global holds a client. The first handler
  is \<open>except json.JSONDecodeError\<close>; there the strict decoding has succeeded, so the
  text it logs, decoded with \<open>errors='replace'\<close>, is the decoded text. The second
  handler is \<open>except Exception\<close>.
\<close>

definition handle_rx_body :: "pylib \<Rightarrow> config \<Rightarrow> bool \<Rightarrow> byte list \<Rightarrow> action" where
  "handle_rx_body lib cfg mq_client data =
     (case utf8_decode data of
        None \<Rightarrow> raise UnicodeDecodeError
      | Some text \<Rightarrow>
          (case json_loads lib text of
             Inl e \<Rightarrow> raise e
           | Inr payload \<Rightarrow>
               block
                 [log DEBUG (Received payload),
                  info_part payload,
                  if mq_client
                  then block [properties_part lib cfg payload, packdata_part lib payload]
                  else skip]))"

definition handle_rx :: "pylib \<Rightarrow> config \<Rightarrow> bool \<Rightarrow> byte list \<Rightarrow> action" where
  "handle_rx lib cfg mq_client data =
     (let body = handle_rx_body lib cfg mq_client data
      in case snd body of
           Raised e \<Rightarrow>
             if e = JSONDecodeError
             then (fst body @ [Log ERROR (InvalidJSON (case utf8_decode data of
                                                          None \<Rightarrow> [] | Some text \<Rightarrow> text))],
                   Done)
             else if is_Exception e
             then (fst body @ [Log ERROR (ErrorHandlingData e), Log DEBUG (RawData data)], Done)
             else body
         | _ \<Rightarrow> body)"

text \<open>The messages handed to the MQTT client in a list of events.\<close>

fun published :: "event list \<Rightarrow> (pystr \<times> pyobj) list" where
  "published [] = []"
| "published (Publish t v r # es) = (t, v) # published es"
| "published (_ # es) = published es"

text \<open>The device and product context of the examples.\<close>

definition dev1_config :: config where
  "dev1_config = default_config\<lparr>SF_DEVICE_ID := Some (py ''dev1'')\<rparr>"

section \<open>Observations on the notification handler\<close>


text \<open>The bytes of an ASCII text.\<close>

definition ascii_bytes :: "string \<Rightarrow> byte list" where
  "ascii_bytes s = map of_char s"



text \<open>\<open>publish\<close> takes the message: none of its three checks refuses.\<close>

definition accepted :: "pylib \<Rightarrow> pystr \<Rightarrow> pyobj \<Rightarrow> bool" where
  "accepted lib topic payload =
     (\<not> bad_topic lib topic \<and> \<not> is_container payload \<and> \<not> bad_payload lib payload)"

text \<open>
  What the pack-data update asks for, in its own words: a pack is a mapping with a
  serial under \<open>sn\<close>; its messages are one per property other than \<open>sn\<close>, in the order
  of the mapping, on the topic of the serial and the property.
\<close>

fun has_sn :: "pyobj \<Rightarrow> bool" where
  "has_sn (PDict kvs) = (map_of kvs (py ''sn'') \<noteq> None)"
| "has_sn _ = False"

fun pack_messages :: "pylib \<Rightarrow> pyobj \<Rightarrow> (pystr \<times> pyobj) list" where
  "pack_messages lib (PDict kvs) =
     (case map_of kvs (py ''sn'') of
        None \<Rightarrow> []
      | Some sn \<Rightarrow>
          map (\<lambda>kv. (battery_topic lib sn (fst kv), snd kv))
            (filter (\<lambda>kv. fst kv \<noteq> py ''sn'') kvs))"
| "pack_messages lib _ = []"

definition pack_example :: "byte list" where
  \<open>pack_example = ascii_bytes ''{"packData":[{"sn":"ABC123","volt":52.1,"temp":30}]}''\<close>

section \<open>Profile resolution\<close>

text \<open>
  C8. Each of the five product identifiers of the table resolves to its name prefix, and
  every other identifier resolves to the generic prefix \<open>zen\<close>. \<open>product_class\<close> is a
  total function: the lookup has a default and raises nothing.
\<close>

theorem product_class_resolves:
  "product_class (py ''73bkTV'') = py ''zenp'' \<and>
   product_class (py ''A8yh63'') = py ''zenh'' \<and>
   product_class (py ''yWF7hV'') = py ''zenr'' \<and>
   product_class (py ''ja72U0ha'') = py ''zene'' \<and>
   product_class (py ''8bM93H'') = py ''zenf'' \<and>
   (\<forall>pid. pid \<notin> {py ''73bkTV'', py ''A8yh63'', py ''yWF7hV'', py ''ja72U0ha'', py ''8bM93H''}
      \<longrightarrow> product_class pid = py ''zen'')"
  by (simp add: product_class_def product_map_def)

theorem product_class_resolves_witness:
  "py ''Hub9999'' \<notin> {py ''73bkTV'', py ''A8yh63'', py ''yWF7hV'', py ''ja72U0ha'', py ''8bM93H''} \<and>
   product_class (py ''Hub9999'') = py ''zen'' \<and>
   product_class (py ''ja72U0ha'') = py ''zene''"
  using product_class_resolves by simp

section \<open>Command encoding\<close>

lemma digits_range: "list_all (\<lambda>c. 48 \<le> c \<and> c \<le> 57) (digits n)"
proof (induction n rule: digits.induct)
  case (1 n)
  show ?case
  proof (cases "n < 10")
    case True
    then show ?thesis by (subst digits.simps) simp
  next
    case False
    with 1 show ?thesis by (subst digits.simps) simp
  qed
qed

lemma str_int_range: "list_all (\<lambda>c. c = 45 \<or> (48 \<le> c \<and> c \<le> 57)) (str_int i)"
  using digits_range [of "nat i"] digits_range [of "nat (- i)"]
  by (auto simp: str_int_def list_all_iff)

lemma escape_cp_plain: "plain c \<Longrightarrow> escape_cp c = [c]"
  by (auto simp: plain_def escape_cp_def)

lemma escape_plain: "list_all plain s \<Longrightarrow> concat (map escape_cp s) = s"
  by (induction s) (simp_all add: escape_cp_plain)

lemma str_int_plain: "list_all plain (str_int i)"
  using str_int_range [of i] by (auto simp: list_all_iff plain_def)

lemma str_int_byte: "list_all (\<lambda>c. c < 256) (str_int i)"
  using str_int_range [of i] by (auto simp: list_all_iff)

lemma info_cmd_text:
  \<open>json_dumps (info_cmd now) =
     py ''{"messageId": "none", "method": "getInfo", "timestamp": "'' @ str_int now @ py ''"}''\<close>
  by (simp add: info_cmd_def encode_basestring_ascii_def escape_cp_def
      escape_plain [OF str_int_plain])

text \<open>The decimal string of a number denotes the number, and is its only such string.\<close>

lemma digits_nonempty: "digits n \<noteq> []"
  by (subst digits.simps) simp

lemma digits_is_digit: "list_all is_digit (digits n)"
  using digits_range [of n] by (simp add: list_all_iff is_digit_def)

lemma nat_of_digits_snoc: "nat_of_digits (ds @ [d]) = 10 * nat_of_digits ds + (d - 48)"
  by (simp add: nat_of_digits_def)

lemma nat_of_digits_digits: "nat_of_digits (digits n) = n"
proof (induction n rule: digits.induct)
  case (1 n)
  show ?case
  proof (cases "n < 10")
    case True
    then show ?thesis by (subst digits.simps) (simp add: nat_of_digits_def)
  next
    case False
    then have "nat_of_digits (digits (n div 10)) = n div 10" using 1 by simp
    with False show ?thesis
      by (subst digits.simps) (simp add: nat_of_digits_snoc)
  qed
qed

lemma digits_hd: "(hd (digits n) = 48) = (n = 0)"
proof (induction n rule: digits.induct)
  case (1 n)
  show ?case
  proof (cases "n < 10")
    case True
    then show ?thesis by (subst digits.simps) simp
  next
    case False
    then have "(hd (digits (n div 10)) = 48) = (n div 10 = 0)" using 1 by simp
    with False show ?thesis
      by (subst digits.simps) (simp add: digits_nonempty)
  qed
qed

lemma digits_no_sign: "hd (digits n) \<noteq> 45"
  using digits_range [of n] digits_nonempty [of n] by (cases "digits n") auto

lemma int_of_text_str_int: "int_of_text (str_int i) = i"
proof (cases "i < 0")
  case True
  then show ?thesis by (simp add: str_int_def int_of_text_def nat_of_digits_digits)
next
  case False
  obtain c r where d: "digits (nat i) = c # r"
    using digits_nonempty [of "nat i"] by (cases "digits (nat i)") auto
  have "c \<noteq> 45" using digits_no_sign [of "nat i"] d by simp
  then have "int_of_text (digits (nat i)) = int (nat_of_digits (digits (nat i)))"
    using d by (simp add: int_of_text_def)
  with False show ?thesis by (simp add: str_int_def nat_of_digits_digits)
qed

lemma properties_cmd_text:
  \<open>json_dumps (properties_cmd now) =
     py ''{"method": "read", "timestamp": "'' @ str_int now
     @ py ''", "messageId": "none", "properties": ["getAll"]}''\<close>
  by (simp add: properties_cmd_def encode_basestring_ascii_def escape_cp_def
      escape_plain [OF str_int_plain])

lemma example_instant: \<open>str_int 1700000000 = py ''1700000000''\<close>
  by (simp add: str_int_def digits.simps)

text \<open>
  C9. The bytes of the GetInfo command are the JSON object
  \<open>{"messageId": "none", "method": "getInfo", "timestamp": "<seconds>"}\<close>, where
  \<open><seconds>\<close> is the decimal string of the clock value \<open>now\<close> read by \<open>getInfo\<close>. The
  right-hand side mentions \<open>now\<close> and nothing else, so two encodings at the same instant
  are the same bytes. These bytes are what \<open>getInfo\<close> hands to its first write, whatever
  the writes then do. The decimal string is pinned down: read as a number it is \<open>now\<close>;
  for a clock value that is not negative it consists of digits only and starts with
  \<open>0\<close> only for zero; below zero it is a minus sign before the string of the absolute
  value; at the instant 1700000000 it is \<open>1700000000\<close> and the command is the bytes of
  \<open>{"messageId": "none", "method": "getInfo", "timestamp": "1700000000"}\<close>. The second
  command of \<open>getInfo\<close> is the bytes of
  \<open>{"method": "read", "timestamp": "<seconds>", "messageId": "none", "properties": ["getAll"]}\<close>
  with the same string, and when both writes return \<open>getInfo\<close> does exactly the two
  writes, each after its log record.
\<close>

theorem getInfo_encoding:
  \<open>bytes_of_ords (json_dumps (info_cmd now)) =
     Inr (map of_char ''{"messageId": "none", "method": "getInfo", "timestamp": "''
          @ map of_nat (str_int now) @ map of_char ''"}'') \<and>
   (\<exists>rest. fst (getInfo now w1 w2) =
      Log DEBUG SendingGetInfo
      # WriteGattChar SF_COMMAND_CHAR
          (map of_char ''{"messageId": "none", "method": "getInfo", "timestamp": "''
           @ map of_nat (str_int now) @ map of_char ''"}'')
      # rest) \<and>
   int_of_text (str_int now) = now \<and>
   list_all is_digit (str_int (int n)) \<and>
   str_int (int n) \<noteq> [] \<and>
   (hd (str_int (int n)) = 48) = (n = 0) \<and>
   str_int (- int (Suc n)) = 45 # str_int (int (Suc n)) \<and>
   str_int 1700000000 = py ''1700000000'' \<and>
   bytes_of_ords (json_dumps (info_cmd 1700000000)) =
     Inr (map of_char ''{"messageId": "none", "method": "getInfo", "timestamp": "1700000000"}'') \<and>
   bytes_of_ords (json_dumps (properties_cmd now)) =
     Inr (map of_char ''{"method": "read", "timestamp": "''
          @ map of_nat (str_int now)
          @ map of_char ''", "messageId": "none", "properties": ["getAll"]}'') \<and>
   getInfo now None None =
     ([Log DEBUG SendingGetInfo,
       WriteGattChar SF_COMMAND_CHAR
         (map of_char ''{"messageId": "none", "method": "getInfo", "timestamp": "''
          @ map of_nat (str_int now) @ map of_char ''"}''),
       Log DEBUG SendingGetAll,
       WriteGattChar SF_COMMAND_CHAR
         (map of_char ''{"method": "read", "timestamp": "''
          @ map of_nat (str_int now)
          @ map of_char ''", "messageId": "none", "properties": ["getAll"]}'')],
      Done)\<close>
proof -
  have b: \<open>bytes_of_ords (json_dumps (info_cmd now)) =
     Inr (map of_char ''{"messageId": "none", "method": "getInfo", "timestamp": "''
          @ map of_nat (str_int now) @ map of_char ''"}'')\<close> for now
    unfolding info_cmd_text
    by (simp add: bytes_of_ords_def str_int_byte)
  have p: \<open>bytes_of_ords (json_dumps (properties_cmd now)) =
     Inr (map of_char ''{"method": "read", "timestamp": "''
          @ map of_nat (str_int now)
          @ map of_char ''", "messageId": "none", "properties": ["getAll"]}'')\<close>
    unfolding properties_cmd_text
    by (simp add: bytes_of_ords_def str_int_byte)
  have t: \<open>\<exists>rest. fst (getInfo now w1 w2) =
      Log DEBUG SendingGetInfo
      # WriteGattChar SF_COMMAND_CHAR
          (map of_char ''{"messageId": "none", "method": "getInfo", "timestamp": "''
           @ map of_nat (str_int now) @ map of_char ''"}'')
      # rest\<close>
    using b [of now]
    by (cases w1) (auto simp: getInfo_def write_command_def call_def log_def try_except_def)
  have v: "int_of_text (str_int now) = now"
    by (rule int_of_text_str_int)
  have d: "list_all is_digit (str_int (int n))"
    by (simp add: str_int_def digits_is_digit)
  have ne: "str_int (int n) \<noteq> []"
    by (simp add: str_int_def digits_nonempty)
  have z: "(hd (str_int (int n)) = 48) = (n = 0)"
    by (simp add: str_int_def digits_hd)
  have m: "str_int (- int (Suc n)) = 45 # str_int (int (Suc n))"
    by (simp add: str_int_def add.commute)
  have c: \<open>bytes_of_ords (json_dumps (info_cmd 1700000000)) =
     Inr (map of_char ''{"messageId": "none", "method": "getInfo", "timestamp": "1700000000"}'')\<close>
    unfolding b [of 1700000000] example_instant by simp
  have g: \<open>getInfo now None None =
     ([Log DEBUG SendingGetInfo,
       WriteGattChar SF_COMMAND_CHAR
         (map of_char ''{"messageId": "none", "method": "getInfo", "timestamp": "''
          @ map of_nat (str_int now) @ map of_char ''"}''),
       Log DEBUG SendingGetAll,
       WriteGattChar SF_COMMAND_CHAR
         (map of_char ''{"method": "read", "timestamp": "''
          @ map of_nat (str_int now)
          @ map of_char ''", "messageId": "none", "properties": ["getAll"]}'')],
      Done)\<close>
    using b [of now] p
    by (simp add: getInfo_def write_command_def call_def log_def try_except_def)
  show ?thesis
    using b [of now] t v d ne z m example_instant c p g by (intro conjI)
qed

section \<open>Actions\<close>

lemma snd_log [simp]: "snd (log l m) = Done" by (simp add: log_def)
lemma fst_log [simp]: "fst (log l m) = [Log l m]" by (simp add: log_def)
lemma snd_skip [simp]: "snd skip = Done" by (simp add: skip_def)
lemma fst_skip [simp]: "fst skip = []" by (simp add: skip_def)
lemma fst_call [simp]: "fst (call ev r) = [ev]" by (simp add: call_def)
lemma snd_call_None [simp]: "snd (call ev None) = Done" by (simp add: call_def)
lemma snd_call_Some [simp]: "snd (call ev (Some e)) = Raised e" by (simp add: call_def)

lemma hex_digit_ascii: "d < 16 \<Longrightarrow> hex_digit d < 128"
  by (simp add: hex_digit_def)

lemma escape_cp_ascii: "list_all (\<lambda>x. x < 128) (escape_cp c)"
  by (simp add: escape_cp_def hex4_def hex_digit_ascii)

lemma encode_basestring_ascii_ascii: "list_all (\<lambda>x. x < 128) (encode_basestring_ascii s)"
  by (induction s) (simp_all add: encode_basestring_ascii_def escape_cp_ascii)

lemma ascii_byte: "list_all (\<lambda>x. x < 128) s \<Longrightarrow> list_all (\<lambda>x. x < (256::nat)) s"
  by (induction s) auto

lemma bytes_of_ords_ascii:
  "list_all (\<lambda>x. x < 128) s \<Longrightarrow> bytes_of_ords s = Inr (map of_nat s)"
  by (simp add: bytes_of_ords_def ascii_byte)

lemma str_int_ascii: "list_all (\<lambda>c. c < 128) (str_int i)"
  using str_int_range [of i] by (auto simp: list_all_iff)

lemma info_cmd_ascii: "list_all (\<lambda>x. x < 128) (json_dumps (info_cmd now))"
  by (simp add: info_cmd_def encode_basestring_ascii_ascii)

lemma properties_cmd_ascii: "list_all (\<lambda>x. x < 128) (json_dumps (properties_cmd now))"
  by (simp add: properties_cmd_def encode_basestring_ascii_ascii)

lemma token_cmd_ascii: "list_all (\<lambda>x. x < 128) (json_dumps (token_cmd b pwd s))"
  by (cases pwd) (simp_all add: token_cmd_def encode_basestring_ascii_ascii)

lemma station_cmd_bytes:
  \<open>bytes_of_ords station_cmd = Inr (map of_char ''{"messageId":"1003","method":"station"}'')\<close>
  by (simp add: station_cmd_def bytes_of_ords_def)

text \<open>One guarded write.\<close>

lemma guarded_write:
  assumes "bytes_of_ords t = Inr bs"
  shows "try_except (block [log l m, write_command t w]) (\<lambda>e. log ERROR (f e)) =
     (case w of
        None \<Rightarrow> ([Log l m, WriteGattChar SF_COMMAND_CHAR bs], Done)
      | Some e \<Rightarrow>
          if is_Exception e
          then ([Log l m, WriteGattChar SF_COMMAND_CHAR bs, Log ERROR (f e)], Done)
          else ([Log l m, WriteGattChar SF_COMMAND_CHAR bs], Raised e))"
  using assms by (cases w) (simp_all add: write_command_def try_except_def)

lemma getInfo_unfold:
  "getInfo now w1 w2 =
     block
       [case w1 of
          None \<Rightarrow> ([Log DEBUG SendingGetInfo,
                    WriteGattChar SF_COMMAND_CHAR (map of_nat (json_dumps (info_cmd now)))], Done)
        | Some e \<Rightarrow>
            if is_Exception e
            then ([Log DEBUG SendingGetInfo,
                   WriteGattChar SF_COMMAND_CHAR (map of_nat (json_dumps (info_cmd now))),
                   Log ERROR (GetInfoFailed e)], Done)
            else ([Log DEBUG SendingGetInfo,
                   WriteGattChar SF_COMMAND_CHAR (map of_nat (json_dumps (info_cmd now)))], Raised e),
        case w2 of
          None \<Rightarrow> ([Log DEBUG SendingGetAll,
                    WriteGattChar SF_COMMAND_CHAR (map of_nat (json_dumps (properties_cmd now)))], Done)
        | Some e \<Rightarrow>
            if is_Exception e
            then ([Log DEBUG SendingGetAll,
                   WriteGattChar SF_COMMAND_CHAR (map of_nat (json_dumps (properties_cmd now))),
                   Log ERROR (GetPropertiesFailed e)], Done)
            else ([Log DEBUG SendingGetAll,
                   WriteGattChar SF_COMMAND_CHAR (map of_nat (json_dumps (properties_cmd now)))], Raised e)]"
  unfolding getInfo_def
  by (simp only: guarded_write [OF bytes_of_ords_ascii [OF info_cmd_ascii]]
      guarded_write [OF bytes_of_ords_ascii [OF properties_cmd_ascii]])

lemma getInfo_Done:
  "uncancelled w1 \<Longrightarrow> uncancelled w2 \<Longrightarrow> snd (getInfo now w1 w2) = Done"
  unfolding getInfo_unfold by (cases w1; cases w2) (simp_all add: uncancelled_def)

lemma getInfo_calls:
  "uncancelled w1 \<Longrightarrow> uncancelled w2 \<Longrightarrow>
   calls (fst (getInfo now w1 w2)) =
     [WriteGattChar SF_COMMAND_CHAR (map of_nat (json_dumps (info_cmd now))),
      WriteGattChar SF_COMMAND_CHAR (map of_nat (json_dumps (properties_cmd now)))]"
  unfolding getInfo_unfold by (cases w1; cases w2) (simp_all add: uncancelled_def calls_def)

section \<open>Device locator\<close>

lemma zene_matches:
  "name d = Some (py ''ZenE-1234'') \<Longrightarrow> name_matches (py ''zene'') d"
  by (simp add: name_matches_def startswith_def lower_def lower_cp_def)

lemma find_in_set: "d \<in> set ds \<Longrightarrow> P d \<Longrightarrow> \<exists>x. find P ds = Some x \<and> P x"
  by (induction ds) auto

lemma find_Some_P: "find P ds = Some x \<Longrightarrow> P x"
  by (induction ds) (auto split: if_splits)

lemma find_Some_set: "find P ds = Some x \<Longrightarrow> x \<in> set ds"
  by (induction ds) (auto split: if_splits)

text \<open>
  C4, as amended. When the first scan returns the list \<open>ads\<close> and the filtered scan is
  not cancelled:
  \<^item> a match of the filtered scan is the result;
  \<^item> when the filtered scan raises or matches nothing, the result is the first entry of
    \<open>ads\<close> that passes the same filter;
  \<^item> the result is empty exactly when neither strategy has a match;
  \<^item> when \<open>ads\<close> holds an entry named \<open>ZenE-1234\<close> and the product identifier resolves
    to \<open>zene\<close>, the result is never empty and passes the filter, and it is that entry
    whenever that entry is the match of the strategy that answers (the filtered scan's
    match, or the first match in \<open>ads\<close> when the filtered scan has none).
\<close>

theorem discover_device_first_match:
  assumes scanned: "discover env = Inr ads"
    and not_cancelled: "\<forall>x. filter_scan env = Inl x \<longrightarrow> is_Exception x"
  shows
   "(\<forall>obs d. filter_scan env = Inr obs \<and> find (name_matches (product_class pid)) obs = Some d
        \<longrightarrow> discover_device pid env = Inr (Some d)) \<and>
    ((\<exists>x. filter_scan env = Inl x) \<or>
     (\<exists>obs. filter_scan env = Inr obs \<and> find (name_matches (product_class pid)) obs = None)
        \<longrightarrow> discover_device pid env = Inr (find (name_matches (product_class pid)) ads)) \<and>
    (discover_device pid env = Inr None \<longleftrightarrow>
       \<not> (\<exists>obs d. filter_scan env = Inr obs \<and> d \<in> set obs \<and> name_matches (product_class pid) d) \<and>
       \<not> (\<exists>d \<in> set ads. name_matches (product_class pid) d)) \<and>
    (\<forall>e. product_class pid = py ''zene'' \<and> e \<in> set ads \<and> name e = Some (py ''ZenE-1234'')
        \<longrightarrow> (\<exists>d. discover_device pid env = Inr (Some d) \<and> name_matches (py ''zene'') d) \<and>
            (((\<exists>obs. filter_scan env = Inr obs \<and> find (name_matches (py ''zene'')) obs = Some e) \<or>
              ((\<exists>x. filter_scan env = Inl x) \<or>
               (\<exists>obs. filter_scan env = Inr obs \<and> find (name_matches (py ''zene'')) obs = None))
               \<and> find (name_matches (py ''zene'')) ads = Some e)
             \<longrightarrow> discover_device pid env = Inr (Some e)))"
proof -
  let ?P = "name_matches (product_class pid)"
  have a: "\<forall>obs d. filter_scan env = Inr obs \<and> find ?P obs = Some d
        \<longrightarrow> discover_device pid env = Inr (Some d)"
    using scanned by (simp add: discover_device_def find_device_by_filter_def)
  have b: "(\<exists>x. filter_scan env = Inl x) \<or>
     (\<exists>obs. filter_scan env = Inr obs \<and> find ?P obs = None)
        \<longrightarrow> discover_device pid env = Inr (find ?P ads)"
    using scanned not_cancelled
    by (auto simp: discover_device_def find_device_by_filter_def)
  have c: "discover_device pid env = Inr None \<longleftrightarrow>
       \<not> (\<exists>obs d. filter_scan env = Inr obs \<and> d \<in> set obs \<and> ?P d) \<and>
       \<not> (\<exists>d \<in> set ads. ?P d)"
  proof (cases "filter_scan env")
    case (Inl x)
    have eq: "discover_device pid env = Inr (find ?P ads)"
      using b Inl by blast
    show ?thesis
      unfolding eq using Inl by (auto simp: find_None_iff)
  next
    case (Inr obs)
    show ?thesis
    proof (cases "find ?P obs")
      case None
      have eq: "discover_device pid env = Inr (find ?P ads)"
        using b Inr None by blast
      have no: "\<not> (\<exists>d. d \<in> set obs \<and> ?P d)"
        using None by (auto simp: find_None_iff)
      show ?thesis
        unfolding eq using Inr no by (auto simp: find_None_iff)
    next
      case (Some a)
      have eq: "discover_device pid env = Inr (Some a)"
        using a Inr Some by blast
      show ?thesis
        unfolding eq using Inr find_Some_P [OF Some] find_Some_set [OF Some] by auto
    qed
  qed
  have d: "\<forall>e. product_class pid = py ''zene'' \<and> e \<in> set ads \<and> name e = Some (py ''ZenE-1234'')
        \<longrightarrow> (\<exists>d. discover_device pid env = Inr (Some d) \<and> name_matches (py ''zene'') d) \<and>
            (((\<exists>obs. filter_scan env = Inr obs \<and> find (name_matches (py ''zene'')) obs = Some e) \<or>
              ((\<exists>x. filter_scan env = Inl x) \<or>
               (\<exists>obs. filter_scan env = Inr obs \<and> find (name_matches (py ''zene'')) obs = None))
               \<and> find (name_matches (py ''zene'')) ads = Some e)
             \<longrightarrow> discover_device pid env = Inr (Some e))"
  proof (intro allI impI, elim conjE)
    fix e
    assume pc: "product_class pid = py ''zene''" and mem: "e \<in> set ads"
      and nm: "name e = Some (py ''ZenE-1234'')"
    have m: "?P e" using zene_matches [OF nm] pc by simp
    obtain x where x: "find ?P ads = Some x" "?P x"
      using find_in_set [of e ads ?P, OF mem m] by blast
    have ex: "\<exists>d. discover_device pid env = Inr (Some d) \<and> ?P d"
    proof (cases "filter_scan env")
      case (Inl y)
      then show ?thesis using b x by auto
    next
      case (Inr obs)
      show ?thesis
      proof (cases "find ?P obs")
        case None
        then show ?thesis using b x Inr by auto
      next
        case (Some d)
        then show ?thesis using a Inr find_Some_P [OF Some] by auto
      qed
    qed
    show "(\<exists>d. discover_device pid env = Inr (Some d) \<and> name_matches (py ''zene'') d) \<and>
            (((\<exists>obs. filter_scan env = Inr obs \<and> find (name_matches (py ''zene'')) obs = Some e) \<or>
              ((\<exists>x. filter_scan env = Inl x) \<or>
               (\<exists>obs. filter_scan env = Inr obs \<and> find (name_matches (py ''zene'')) obs = None))
               \<and> find (name_matches (py ''zene'')) ads = Some e)
             \<longrightarrow> discover_device pid env = Inr (Some e))"
      using ex a b pc by auto
  qed
  show ?thesis using a b c d by blast
qed

theorem discover_device_first_match_witness:
  "discover \<lparr>discover = Inr [\<lparr>name = None, address = py ''CC:00''\<rparr>, hub_b], filter_scan = Inr []\<rparr>
     = Inr [\<lparr>name = None, address = py ''CC:00''\<rparr>, hub_b] \<and>
   filter_scan \<lparr>discover = Inr [\<lparr>name = None, address = py ''CC:00''\<rparr>, hub_b], filter_scan = Inr []\<rparr>
     = Inr [] \<and>
   product_class (py ''ja72U0ha'') = py ''zene'' \<and>
   discover_device (py ''ja72U0ha'')
     \<lparr>discover = Inr [\<lparr>name = None, address = py ''CC:00''\<rparr>, hub_b], filter_scan = Inr []\<rparr>
     = Inr (Some hub_b)"
  using discover_device_first_match
    [of "\<lparr>discover = Inr [\<lparr>name = None, address = py ''CC:00''\<rparr>, hub_b], filter_scan = Inr []\<rparr>"
        "[\<lparr>name = None, address = py ''CC:00''\<rparr>, hub_b]" "py ''ja72U0ha''"]
  by (simp add: product_class_def product_map_def hub_b_def name_matches_def startswith_def
      lower_def lower_cp_def)

text \<open>
  The claim as stated, refuted: with two matching advertisers collected and nothing
  observed by the filtered scan, the list holds an entry named \<open>ZenE-1234\<close> and the
  function returns the other one, which comes first.
\<close>

theorem discover_device_counterexample:
  "hub_b \<in> set [hub_a, hub_b] \<and> name hub_b = Some (py ''ZenE-1234'') \<and>
   product_class (py ''ja72U0ha'') = py ''zene'' \<and>
   discover_device (py ''ja72U0ha'') \<lparr>discover = Inr [hub_a, hub_b], filter_scan = Inr []\<rparr>
     = Inr (Some hub_a) \<and>
   hub_a \<noteq> hub_b"
  by (simp add: discover_device_def find_device_by_filter_def product_class_def product_map_def
      hub_a_def hub_b_def name_matches_def startswith_def lower_def lower_cp_def)

section \<open>The polling loop\<close>

declare continuous_loop.simps(2) [simp del]

lemma uncancelled_cases:
  "uncancelled r \<Longrightarrow> (r = None \<Longrightarrow> P) \<Longrightarrow> (\<And>e. r = Some e \<Longrightarrow> is_Exception e \<Longrightarrow> P) \<Longrightarrow> P"
  by (cases r) (auto simp: uncancelled_def)

text \<open>One iteration, in closed form.\<close>

lemma loop_step_fault:
  assumes "start_notify_res it = Some e" "is_Exception e" "backoff_res it = None"
  shows "continuous_loop interval g (it # its) =
     ([StartNotify SF_NOTIFY_CHAR, Log ERROR (PollingLoopError e), Sleep 5]
        @ fst (continuous_loop interval g its),
      snd (continuous_loop interval g its))"
  using assms by (simp add: continuous_loop.simps(2) Let_def try_except_def)


lemma info_step_Done:
  "uncancelled w1 \<Longrightarrow> uncancelled w2 \<Longrightarrow>
   snd (if g then getInfo now w1 w2 else skip) = Done"
  by (simp add: getInfo_Done)

lemma block_single: "block [c] = c"
  by (cases c; cases "snd c") auto

lemma block_Done: "snd a = Done \<Longrightarrow> block (a # as) = (fst a @ fst (block as), snd (block as))"
  by simp

lemma block_stop: "snd a \<noteq> Done \<Longrightarrow> block (a # as) = a"
  by (cases "snd a") auto

lemma block3:
  "snd a = Done \<Longrightarrow> snd b = Done \<Longrightarrow>
   block [a, b, c] = (fst a @ fst b @ fst c, snd c)"
  by (simp only: block_Done block_single) simp

lemma loop_step_ok:
  assumes "start_notify_res it = None" "uncancelled (info_write it)"
    "uncancelled (properties_write it)" "sleep_res it = None"
  shows "continuous_loop interval g (it # its) =
     (StartNotify SF_NOTIFY_CHAR
        # fst (if g then getInfo (poll_clock it) (info_write it) (properties_write it) else skip)
        @ Sleep interval # fst (continuous_loop interval True its),
      snd (continuous_loop interval True its))"
proof -
  let ?info = "if g then getInfo (poll_clock it) (info_write it) (properties_write it) else skip"
  have i: "snd ?info = Done" using assms by (rule_tac info_step_Done) auto
  have b: "block [call (StartNotify SF_NOTIFY_CHAR) (start_notify_res it), ?info,
                  call (Sleep interval) (sleep_res it)] =
           (StartNotify SF_NOTIFY_CHAR # fst ?info @ [Sleep interval], Done)"
    using assms(1,4) i by (subst block3) simp_all
  show ?thesis
    apply (subst continuous_loop.simps)
    apply (simp only: Let_def b)
    apply (simp add: try_except_def)
    done
qed

lemma loop_step_sleep_fault:
  assumes "start_notify_res it = None" "uncancelled (info_write it)"
    "uncancelled (properties_write it)" "sleep_res it = Some e" "is_Exception e"
    "backoff_res it = None"
  shows "continuous_loop interval g (it # its) =
     (StartNotify SF_NOTIFY_CHAR
        # fst (if g then getInfo (poll_clock it) (info_write it) (properties_write it) else skip)
        @ [Sleep interval, Log ERROR (PollingLoopError e), Sleep 5]
        @ fst (continuous_loop interval False its),
      snd (continuous_loop interval False its))"
proof -
  let ?info = "if g then getInfo (poll_clock it) (info_write it) (properties_write it) else skip"
  have i: "snd ?info = Done" using assms by (rule_tac info_step_Done) auto
  have b: "block [call (StartNotify SF_NOTIFY_CHAR) (start_notify_res it), ?info,
                  call (Sleep interval) (sleep_res it)] =
           (StartNotify SF_NOTIFY_CHAR # fst ?info @ [Sleep interval], Raised e)"
    using assms(1,4) i by (subst block3) simp_all
  show ?thesis
    apply (subst continuous_loop.simps)
    apply (simp only: Let_def b)
    apply (simp add: try_except_def assms i)
    done
qed

lemma loop_running:
  "\<forall>it \<in> set its. no_cancel it \<Longrightarrow> snd (continuous_loop interval g its) = Running"
proof (induction its arbitrary: g)
  case Nil
  then show ?case by simp
next
  case (Cons it its)
  then have nc: "no_cancel it" and rest: "\<forall>it \<in> set its. no_cancel it" by auto
  from nc have u: "uncancelled (start_notify_res it)" "uncancelled (info_write it)"
    "uncancelled (properties_write it)" "uncancelled (sleep_res it)" "backoff_res it = None"
    by (auto simp: no_cancel_def)
  show ?case
  proof (rule uncancelled_cases [OF u(1)])
    fix e assume "start_notify_res it = Some e" "is_Exception e"
    then show ?thesis
      using loop_step_fault [OF _ _ u(5)] Cons.IH [OF rest] by simp
  next
    assume s: "start_notify_res it = None"
    show ?thesis
    proof (rule uncancelled_cases [OF u(4)])
      assume "sleep_res it = None"
      then show ?thesis
        using loop_step_ok [OF s u(2) u(3)] Cons.IH [OF rest] by simp
    next
      fix e assume "sleep_res it = Some e" "is_Exception e"
      then show ?thesis
        using loop_step_sleep_fault [OF s u(2) u(3) _ _ u(5)] Cons.IH [OF rest] by simp
    qed
  qed
qed

lemma seq_not_Done:
  "b \<noteq> Done \<Longrightarrow> snd (case snd x of Done \<Rightarrow> (a, b) | _ \<Rightarrow> x) \<noteq> Done"
  by (cases "snd x") auto

lemma loop_never_Done: "snd (continuous_loop interval g its) \<noteq> Done"
proof (induction its arbitrary: g)
  case Nil
  then show ?case by simp
next
  case (Cons it its)
  show ?case
    apply (subst continuous_loop.simps)
    apply (simp only: Let_def)
    apply (rule seq_not_Done)
    apply (rule Cons.IH)
    done
qed

lemma no_log_in_getInfo_calls:
  "ev \<in> set (fst (getInfo now w1 w2)) \<Longrightarrow> is_log ev \<or> (\<exists>b. ev = WriteGattChar SF_COMMAND_CHAR b)"
  unfolding getInfo_unfold
  by (cases w1; cases w2) (auto split: if_splits)

text \<open>
  C5, as amended. For the polling loop of continuous mode:
  \<^item> when no awaited call is cancelled, the loop is still running after every supplied
    iteration, and in no case does it complete: it has no exit of its own;
  \<^item> an \<open>Exception\<close> of \<open>start_notify\<close> or of the polling sleep is caught by the loop,
    logged, followed by the five-second backoff sleep, and the next iteration follows;
  \<^item> an iteration without such an exception subscribes, issues the commands, sleeps for
    the polling interval, and the next iteration follows. An exception of a command
    write in it is caught and logged inside \<open>getInfo\<close>; there is no backoff sleep for
    it.
\<close>

theorem continuous_loop_resilient:
  "((\<forall>it \<in> set its. no_cancel it) \<longrightarrow> snd (continuous_loop interval g its) = Running) \<and>
   snd (continuous_loop interval g its) \<noteq> Done \<and>
   (\<forall>(it::poll_env) e. start_notify_res it = Some e \<and> is_Exception e \<and> backoff_res it = None \<longrightarrow>
      continuous_loop interval g (it # its) =
        ([StartNotify SF_NOTIFY_CHAR, Log ERROR (PollingLoopError e), Sleep 5]
           @ fst (continuous_loop interval g its),
         snd (continuous_loop interval g its))) \<and>
   (\<forall>(it::poll_env) e. start_notify_res it = None \<and> uncancelled (info_write it) \<and>
        uncancelled (properties_write it) \<and> sleep_res it = Some e \<and> is_Exception e \<and>
        backoff_res it = None \<longrightarrow>
      continuous_loop interval g (it # its) =
        (StartNotify SF_NOTIFY_CHAR
           # fst (if g then getInfo (poll_clock it) (info_write it) (properties_write it) else skip)
           @ [Sleep interval, Log ERROR (PollingLoopError e), Sleep 5]
           @ fst (continuous_loop interval False its),
         snd (continuous_loop interval False its))) \<and>
   (\<forall>it::poll_env. start_notify_res it = None \<and> uncancelled (info_write it) \<and>
        uncancelled (properties_write it) \<and> sleep_res it = None \<longrightarrow>
      continuous_loop interval g (it # its) =
        (StartNotify SF_NOTIFY_CHAR
           # fst (if g then getInfo (poll_clock it) (info_write it) (properties_write it) else skip)
           @ Sleep interval # fst (continuous_loop interval True its),
         snd (continuous_loop interval True its)) \<and>
      (\<forall>e. info_write it = Some e \<longrightarrow>
         Log ERROR (GetInfoFailed e) \<in> set (fst (getInfo (poll_clock it) (info_write it) (properties_write it)))) \<and>
      (\<forall>e. properties_write it = Some e \<longrightarrow>
         Log ERROR (GetPropertiesFailed e) \<in> set (fst (getInfo (poll_clock it) (info_write it) (properties_write it)))) \<and>
      Sleep 5 \<notin> set (fst (getInfo (poll_clock it) (info_write it) (properties_write it))))"
proof (intro conjI allI impI)
  show "snd (continuous_loop interval g its) = Running" if "\<forall>it \<in> set its. no_cancel it"
    using that by (rule loop_running)
  show "snd (continuous_loop interval g its) \<noteq> Done" by (rule loop_never_Done)
next
  fix it :: poll_env and e
  assume "start_notify_res it = Some e \<and> is_Exception e \<and> backoff_res it = None"
  then show "continuous_loop interval g (it # its) =
        ([StartNotify SF_NOTIFY_CHAR, Log ERROR (PollingLoopError e), Sleep 5]
           @ fst (continuous_loop interval g its),
         snd (continuous_loop interval g its))"
    using loop_step_fault by blast
next
  fix it :: poll_env and e
  assume "start_notify_res it = None \<and> uncancelled (info_write it) \<and>
        uncancelled (properties_write it) \<and> sleep_res it = Some e \<and> is_Exception e \<and>
        backoff_res it = None"
  then show "continuous_loop interval g (it # its) =
        (StartNotify SF_NOTIFY_CHAR
           # fst (if g then getInfo (poll_clock it) (info_write it) (properties_write it) else skip)
           @ [Sleep interval, Log ERROR (PollingLoopError e), Sleep 5]
           @ fst (continuous_loop interval False its),
         snd (continuous_loop interval False its))"
    using loop_step_sleep_fault by blast
next
  fix it :: poll_env
  assume a: "start_notify_res it = None \<and> uncancelled (info_write it) \<and>
        uncancelled (properties_write it) \<and> sleep_res it = None"
  then show "continuous_loop interval g (it # its) =
        (StartNotify SF_NOTIFY_CHAR
           # fst (if g then getInfo (poll_clock it) (info_write it) (properties_write it) else skip)
           @ Sleep interval # fst (continuous_loop interval True its),
         snd (continuous_loop interval True its))"
    using loop_step_ok by blast
  show "Sleep 5 \<notin> set (fst (getInfo (poll_clock it) (info_write it) (properties_write it)))"
    using no_log_in_getInfo_calls [of "Sleep 5"] by auto
  fix e
  show "Log ERROR (GetInfoFailed e) \<in> set (fst (getInfo (poll_clock it) (info_write it) (properties_write it)))"
    if "info_write it = Some e"
    using that a unfolding getInfo_unfold
    by (cases "properties_write it") (auto simp: uncancelled_def)
  show "Log ERROR (GetPropertiesFailed e) \<in> set (fst (getInfo (poll_clock it) (info_write it) (properties_write it)))"
    if "properties_write it = Some e"
    using that a unfolding getInfo_unfold
    by (cases "info_write it") (auto simp: uncancelled_def)
qed


lemma quiet_no_cancel: "no_cancel quiet_poll"
  by (simp add: no_cancel_def quiet_poll_def uncancelled_def)

lemma fault_no_cancel: "no_cancel (quiet_poll\<lparr>start_notify_res := Some BleakError\<rparr>)"
  by (simp add: no_cancel_def quiet_poll_def uncancelled_def)

theorem continuous_loop_resilient_witness:
  "no_cancel quiet_poll \<and> no_cancel (quiet_poll\<lparr>start_notify_res := Some BleakError\<rparr>) \<and>
   snd (continuous_loop 60 True
          [quiet_poll, quiet_poll\<lparr>start_notify_res := Some BleakError\<rparr>, quiet_poll]) = Running \<and>
   continuous_loop 60 True [quiet_poll\<lparr>start_notify_res := Some BleakError\<rparr>, quiet_poll] =
     ([StartNotify SF_NOTIFY_CHAR, Log ERROR (PollingLoopError BleakError), Sleep 5]
        @ fst (continuous_loop 60 True [quiet_poll]),
      snd (continuous_loop 60 True [quiet_poll]))"
proof -
  let ?f = "quiet_poll\<lparr>start_notify_res := Some BleakError\<rparr>"
  have all: "\<forall>it \<in> set [quiet_poll, ?f, quiet_poll]. no_cancel it"
    using quiet_no_cancel fault_no_cancel by simp
  have r: "snd (continuous_loop 60 True [quiet_poll, ?f, quiet_poll]) = Running"
    using continuous_loop_resilient [of "[quiet_poll, ?f, quiet_poll]" 60 True, THEN conjunct1] all
    by (rule mp)
  have p: "start_notify_res ?f = Some BleakError \<and> is_Exception BleakError \<and> backoff_res ?f = None"
    by (simp add: quiet_poll_def)
  have s: "continuous_loop 60 True [?f, quiet_poll] =
     ([StartNotify SF_NOTIFY_CHAR, Log ERROR (PollingLoopError BleakError), Sleep 5]
        @ fst (continuous_loop 60 True [quiet_poll]),
      snd (continuous_loop 60 True [quiet_poll]))"
    using continuous_loop_resilient [of "[quiet_poll]" 60 True,
        THEN conjunct2, THEN conjunct2, THEN conjunct1, rule_format, of ?f BleakError] p
    by blast
  show ?thesis using quiet_no_cancel fault_no_cancel r s by blast
qed

text \<open>
  The claim as stated, refuted: a transport fault of the first command write is logged
  by \<open>getInfo\<close>, and the iteration goes on to the second write and the polling sleep.
  No backoff sleep follows the exception.
\<close>

theorem write_fault_counterexample:
  "fst (continuous_loop 60 True [quiet_poll\<lparr>info_write := Some BleakError\<rparr>]) =
     [StartNotify SF_NOTIFY_CHAR,
      Log DEBUG SendingGetInfo,
      WriteGattChar SF_COMMAND_CHAR (map of_nat (json_dumps (info_cmd 1700000000))),
      Log ERROR (GetInfoFailed BleakError),
      Log DEBUG SendingGetAll,
      WriteGattChar SF_COMMAND_CHAR (map of_nat (json_dumps (properties_cmd 1700000000))),
      Sleep 60] \<and>
   Sleep 5 \<notin> set (fst (continuous_loop 60 True [quiet_poll\<lparr>info_write := Some BleakError\<rparr>]))"
proof -
  have a: "fst (continuous_loop 60 True [quiet_poll\<lparr>info_write := Some BleakError\<rparr>]) =
     [StartNotify SF_NOTIFY_CHAR,
      Log DEBUG SendingGetInfo,
      WriteGattChar SF_COMMAND_CHAR (map of_nat (json_dumps (info_cmd 1700000000))),
      Log ERROR (GetInfoFailed BleakError),
      Log DEBUG SendingGetAll,
      WriteGattChar SF_COMMAND_CHAR (map of_nat (json_dumps (properties_cmd 1700000000))),
      Sleep 60]"
    by (subst loop_step_ok) (simp_all add: quiet_poll_def uncancelled_def getInfo_unfold)
  show ?thesis unfolding a by simp
qed

section \<open>Continuous mode\<close>

lemma calls_append [simp]: "calls (a @ b) = calls a @ calls b"
  by (simp add: calls_def)

lemma calls_Cons_log [simp]: "calls (Log l m # es) = calls es"
  by (simp add: calls_def)

lemma calls_Nil [simp]: "calls [] = []"
  by (simp add: calls_def)

lemma calls_Cons_call: "\<not> is_log ev \<Longrightarrow> calls (ev # es) = ev # calls es"
  by (simp add: calls_def)

lemma block_logs:
  "block (map (\<lambda>s. log l (f s)) xs) = (map (\<lambda>s. Log l (f s)) xs, Done)"
  by (induction xs) simp_all

lemma calls_logs [simp]: "calls (map (\<lambda>s. Log l (f s)) xs) = []"
  by (induction xs) simp_all

lemma loop_calls:
  "\<forall>it \<in> set its. steady it \<Longrightarrow>
   calls (fst (continuous_loop i True its)) =
     concat (map (\<lambda>it.
       [StartNotify SF_NOTIFY_CHAR,
        WriteGattChar SF_COMMAND_CHAR (map of_nat (json_dumps (info_cmd (poll_clock it)))),
        WriteGattChar SF_COMMAND_CHAR (map of_nat (json_dumps (properties_cmd (poll_clock it)))),
        Sleep i]) its)"
proof (induction its)
  case Nil
  then show ?case by simp
next
  case (Cons it its)
  then have s: "steady it" and rest: "\<forall>it \<in> set its. steady it" by auto
  from s have u: "start_notify_res it = None" "uncancelled (info_write it)"
    "uncancelled (properties_write it)" "sleep_res it = None"
    by (auto simp: steady_def)
  show ?case
    unfolding loop_step_ok [OF u]
    using Cons.IH [OF rest] getInfo_calls [OF u(2) u(3)]
    by (simp add: calls_Cons_call)
qed

lemma steady_no_cancel: "steady it \<Longrightarrow> backoff_res it = None \<Longrightarrow> no_cancel it"
  by (simp add: steady_def no_cancel_def uncancelled_def)

lemma loop_steady_running:
  "\<forall>it \<in> set its. steady it \<Longrightarrow> snd (continuous_loop i g its) = Running"
proof (induction its arbitrary: g)
  case Nil
  then show ?case by simp
next
  case (Cons it its)
  then have s: "steady it" and rest: "\<forall>it \<in> set its. steady it" by auto
  from s have u: "start_notify_res it = None" "uncancelled (info_write it)"
    "uncancelled (properties_write it)" "sleep_res it = None"
    by (auto simp: steady_def)
  show ?case
    unfolding loop_step_ok [OF u] using Cons.IH [OF rest] by simp
qed

lemma session_continuous:
  assumes "\<not> disconnect_requested cfg" "\<not> connect_requested cfg"
    "\<not> (info_only cfg \<and> broker cfg = None)"
  shows "session cfg mq env =
     (Log DEBUG ServicesAvailable # map (\<lambda>s. Log DEBUG (Service s)) (services env)
        @ Log INFO (ContinuousMode (GLOBAL_INFO_POLLING_INTERVAL cfg))
        # fst (continuous_loop (GLOBAL_INFO_POLLING_INTERVAL cfg) True (iterations env)),
      snd (continuous_loop (GLOBAL_INFO_POLLING_INTERVAL cfg) True (iterations env)))"
  using assms
  apply (simp only: session_def block_logs if_False)
  apply (simp only: block_Done snd_log fst_log snd_conv fst_conv block_single)
  apply simp
  done

text \<open>
  C6, as amended. In continuous mode (neither cloud-toggle branch nor the info-only
  branch is taken) nothing is subscribed before the loop: \<open>start_notify\<close> is the first
  call of every iteration. Over steady iterations the calls of the session are, per
  iteration and in this order, one \<open>start_notify\<close>, the GetInfo write, the
  GetAllProperties write and the sleep of the polling interval; the session is then
  still running.
\<close>

theorem continuous_mode_subscribes_each_iteration:
  assumes "\<not> disconnect_requested cfg" "\<not> connect_requested cfg"
    "\<not> (info_only cfg \<and> broker cfg = None)"
    and "\<forall>it \<in> set (iterations env). steady it"
  shows "calls (fst (session cfg mq env)) =
     concat (map (\<lambda>it.
       [StartNotify SF_NOTIFY_CHAR,
        WriteGattChar SF_COMMAND_CHAR (map of_nat (json_dumps (info_cmd (poll_clock it)))),
        WriteGattChar SF_COMMAND_CHAR (map of_nat (json_dumps (properties_cmd (poll_clock it)))),
        Sleep (GLOBAL_INFO_POLLING_INTERVAL cfg)]) (iterations env)) \<and>
     snd (session cfg mq env) = Running"
  unfolding session_continuous [OF assms(1,2,3)]
  using loop_calls [OF assms(4)] loop_steady_running [OF assms(4)]
  by simp


lemma quiet_steady: "steady quiet_poll"
  by (simp add: steady_def quiet_poll_def uncancelled_def)

lemma default_continuous:
  "\<not> disconnect_requested default_config \<and> \<not> connect_requested default_config \<and>
   \<not> (info_only default_config \<and> broker default_config = None)"
  by (simp add: default_config_def disconnect_requested_def connect_requested_def)

theorem continuous_mode_subscribes_each_iteration_witness:
  "\<not> disconnect_requested default_config \<and> \<not> connect_requested default_config \<and>
   \<not> (info_only default_config \<and> broker default_config = None) \<and> steady quiet_poll \<and>
   calls (fst (session default_config False (quiet_env\<lparr>iterations := [quiet_poll, quiet_poll]\<rparr>))) =
     [StartNotify SF_NOTIFY_CHAR,
      WriteGattChar SF_COMMAND_CHAR (map of_nat (json_dumps (info_cmd 1700000000))),
      WriteGattChar SF_COMMAND_CHAR (map of_nat (json_dumps (properties_cmd 1700000000))),
      Sleep 60,
      StartNotify SF_NOTIFY_CHAR,
      WriteGattChar SF_COMMAND_CHAR (map of_nat (json_dumps (info_cmd 1700000000))),
      WriteGattChar SF_COMMAND_CHAR (map of_nat (json_dumps (properties_cmd 1700000000))),
      Sleep 60] \<and>
   snd (session default_config False (quiet_env\<lparr>iterations := [quiet_poll, quiet_poll]\<rparr>)) = Running"
proof -
  let ?env = "quiet_env\<lparr>iterations := [quiet_poll, quiet_poll]\<rparr>"
  have it: "\<forall>it \<in> set (iterations ?env). steady it"
    using quiet_steady by simp
  have c: "\<not> disconnect_requested default_config" "\<not> connect_requested default_config"
    "\<not> (info_only default_config \<and> broker default_config = None)"
    using default_continuous by blast+
  have i: "GLOBAL_INFO_POLLING_INTERVAL default_config = 60" "poll_clock quiet_poll = 1700000000"
    by (simp_all add: default_config_def quiet_poll_def)
  show ?thesis
    using continuous_mode_subscribes_each_iteration [OF c it, of False] c quiet_steady
    by (simp add: i)
qed

text \<open>
  The claim as stated, refuted: two steady iterations subscribe twice, the second time
  after the first command pair and sleep.
\<close>

theorem subscribe_once_counterexample:
  "length (filter (\<lambda>ev. ev = StartNotify SF_NOTIFY_CHAR)
     (fst (session default_config False (quiet_env\<lparr>iterations := [quiet_poll, quiet_poll]\<rparr>)))) = 2 \<and>
   calls (fst (session default_config False (quiet_env\<lparr>iterations := [quiet_poll, quiet_poll]\<rparr>))) =
     [StartNotify SF_NOTIFY_CHAR,
      WriteGattChar SF_COMMAND_CHAR (map of_nat (json_dumps (info_cmd 1700000000))),
      WriteGattChar SF_COMMAND_CHAR (map of_nat (json_dumps (properties_cmd 1700000000))),
      Sleep 60,
      StartNotify SF_NOTIFY_CHAR,
      WriteGattChar SF_COMMAND_CHAR (map of_nat (json_dumps (info_cmd 1700000000))),
      WriteGattChar SF_COMMAND_CHAR (map of_nat (json_dumps (properties_cmd 1700000000))),
      Sleep 60]"
proof -
  let ?env = "quiet_env\<lparr>iterations := [quiet_poll, quiet_poll]\<rparr>"
  have c: "\<not> disconnect_requested default_config" "\<not> connect_requested default_config"
    "\<not> (info_only default_config \<and> broker default_config = None)"
    using default_continuous by blast+
  have u: "start_notify_res quiet_poll = None" "uncancelled (info_write quiet_poll)"
    "uncancelled (properties_write quiet_poll)" "sleep_res quiet_poll = None"
    using quiet_steady by (auto simp: steady_def)
  have i: "GLOBAL_INFO_POLLING_INTERVAL default_config = 60" "poll_clock quiet_poll = 1700000000"
    "info_write quiet_poll = None" "properties_write quiet_poll = None" "services quiet_env = []"
    by (simp_all add: default_config_def quiet_poll_def quiet_env_def)
  have t: "fst (session default_config False ?env) =
     [Log DEBUG ServicesAvailable, Log INFO (ContinuousMode 60),
      StartNotify SF_NOTIFY_CHAR,
      Log DEBUG SendingGetInfo,
      WriteGattChar SF_COMMAND_CHAR (map of_nat (json_dumps (info_cmd 1700000000))),
      Log DEBUG SendingGetAll,
      WriteGattChar SF_COMMAND_CHAR (map of_nat (json_dumps (properties_cmd 1700000000))),
      Sleep 60,
      StartNotify SF_NOTIFY_CHAR,
      Log DEBUG SendingGetInfo,
      WriteGattChar SF_COMMAND_CHAR (map of_nat (json_dumps (info_cmd 1700000000))),
      Log DEBUG SendingGetAll,
      WriteGattChar SF_COMMAND_CHAR (map of_nat (json_dumps (properties_cmd 1700000000))),
      Sleep 60]"
    unfolding session_continuous [OF c]
    by (simp add: i loop_step_ok [OF u] getInfo_unfold)
  show ?thesis unfolding t by (simp add: calls_def)
qed

section \<open>Cloud-toggle mode\<close>


lemma calls_failure_log [simp]: "calls (failure_log f r) = []"
  by (cases r) (simp_all add: failure_log_def)

lemma guarded_send:
  assumes "bytes_of_ords t = Inr bs" "uncancelled w"
  shows "try_except
           (case bytes_of_ords t of
              Inl e \<Rightarrow> raise e
            | Inr bs \<Rightarrow> block [log l m, call (WriteGattChar SF_COMMAND_CHAR bs) w])
           (\<lambda>e. log ERROR (f e)) =
         ([Log l m, WriteGattChar SF_COMMAND_CHAR bs] @ failure_log f w, Done)"
  using assms by (cases w) (simp_all add: try_except_def failure_log_def uncancelled_def)

lemma set_IoT_Url_trace:
  assumes "uncancelled (token_write env)" "uncancelled (station_write env)"
    "reply_publish env = None"
  shows "set_IoT_Url cfg mq b s did env =
     ([Log INFO (SettingIoTUrl (json_dumps (token_cmd b (WIFI_PWD cfg) s))),
       WriteGattChar SF_COMMAND_CHAR (map of_nat (json_dumps (token_cmd b (WIFI_PWD cfg) s)))]
      @ failure_log SettingUrlFailed (token_write env)
      @ [Log INFO SettingStationMode,
         WriteGattChar SF_COMMAND_CHAR (map of_char ''{\"messageId\":\"1003\",\"method\":\"station\"}'')]
      @ failure_log SettingWifiModeFailed (station_write env)
      @ (if mq
         then [Log INFO PublishingRegisterReply,
               Publish (register_topic (SF_PRODUCT_ID cfg) did) (PStr (register_reply (clock env))) True]
         else []),
      Done)"
  unfolding set_IoT_Url_def Let_def
  apply (simp only: guarded_send [OF bytes_of_ords_ascii [OF token_cmd_ascii] assms(1)]
      guarded_send [OF station_cmd_bytes assms(2)])
  apply (simp only: block_Done snd_conv fst_conv)
  apply (cases mq)
   apply (simp_all add: assms(3) block_single)
  done



lemma session_toggle:
  assumes "disconnect_requested cfg \<or> connect_requested cfg"
    "uncancelled (token_write env)" "uncancelled (station_write env)"
    "reply_publish env = None" "settle_sleep env = None"
  shows "session cfg mq env =
     (Log DEBUG ServicesAvailable # map (\<lambda>s. Log DEBUG (Service s)) (services env)
        @ [Log INFO (if disconnect_requested cfg then SettingDisconnect else SettingReconnect)]
        @ fst (set_IoT_Url cfg mq (toggle_broker cfg) (the (ssid cfg)) (SF_DEVICE_ID cfg) env)
        @ [Log SUCCESS (if disconnect_requested cfg then DisconnectedFromCloud else ReconnectedToCloud),
           Sleep 30],
      Done)"
proof -
  have d: "snd (set_IoT_Url cfg mq b s did env) = Done" for b s did
    unfolding set_IoT_Url_trace [OF assms(2,3,4)] by simp
  show ?thesis
  proof (cases "disconnect_requested cfg")
    case True
    then show ?thesis
      apply (simp only: session_def block_logs if_True toggle_broker_def)
      apply (simp only: block_Done snd_log fst_log snd_conv fst_conv block_single d)
      apply (simp add: assms(5))
      done
  next
    case False
    then have c: "connect_requested cfg" using assms(1) by simp
    show ?thesis
      using False c
      apply (simp only: session_def block_logs if_True if_False toggle_broker_def)
      apply (simp only: block_Done snd_log fst_log snd_conv fst_conv block_single d)
      apply (simp add: assms(5))
      done
  qed
qed

lemma local_mqtt_connect_Done:
  "uncancelled r \<Longrightarrow> snd (local_mqtt_connect cfg b p r) = Done"
  by (cases r; cases "mqtt_user cfg"; cases "mqtt_pwd cfg")
     (simp_all add: local_mqtt_connect_def try_except_def uncancelled_def)

lemma local_mqtt_connect_calls:
  "uncancelled r \<Longrightarrow> calls (fst (local_mqtt_connect cfg b p r)) = [MqttConnect b p]"
  by (cases r; cases "mqtt_user cfg"; cases "mqtt_pwd cfg")
     (simp_all add: local_mqtt_connect_def try_except_def uncancelled_def calls_Cons_call)

lemma mqtt_block:
  "uncancelled r \<Longrightarrow>
   (if u then block [log INFO (ConnectingMqtt b p), local_mqtt_connect cfg b p r] else skip) =
   ((if u then Log INFO (ConnectingMqtt b p) # fst (local_mqtt_connect cfg b p r) else []), Done)"
  by (simp add: block_single local_mqtt_connect_Done skip_def)

lemma connected_block:
  assumes "r = None" "snd body = Done"
  shows "try_except (block [log INFO (ConnectingTo d), with_client d r body])
           (\<lambda>e. log ERROR (ConnectionFailed e)) =
         (Log INFO (ConnectingTo d) # BleConnect d # fst body @ [BleDisconnect], Done)"
  using assms by (simp add: with_client_def try_except_def)

lemma run_connected:
  assumes "discover_device (SF_PRODUCT_ID cfg) (scan env) = Inr (Some d)"
    "ble_connect_res env = None" "uncancelled (mqtt_connect_res env)"
    "snd (session cfg ((truthy_str (broker cfg) \<and> truthy_int (port cfg)) \<and> mqtt_connect_res env = None) env) = Done"
  shows "run cfg env =
     ((if truthy_str (broker cfg) \<and> truthy_int (port cfg)
       then Log INFO (ConnectingMqtt (the (broker cfg)) (the (port cfg)))
            # fst (local_mqtt_connect cfg (the (broker cfg)) (the (port cfg)) (mqtt_connect_res env))
       else [])
      @ Log SUCCESS (FoundDevice d) # Log INFO (ConnectingTo d) # BleConnect d
      # fst (session cfg ((truthy_str (broker cfg) \<and> truthy_int (port cfg)) \<and> mqtt_connect_res env = None) env)
      @ [BleDisconnect], Done)"
  apply (simp only: run_def Let_def assms(1) sum.case option.case)
  apply (simp only: connected_block [OF assms(2) assms(4)] mqtt_block [OF assms(3)])
  apply (simp only: block_Done snd_conv fst_conv snd_log fst_log block_single)
  apply simp
  done


lemma toggle_run:
  assumes "disconnect_requested cfg \<or> connect_requested cfg"
    and "discover_device (SF_PRODUCT_ID cfg) (scan env) = Inr (Some d)"
    and "ble_connect_res env = None" "uncancelled (mqtt_connect_res env)"
    and "uncancelled (token_write env)" "uncancelled (station_write env)"
    and "reply_publish env = None" "settle_sleep env = None"
  shows "calls (fst (run cfg env)) =
      (if truthy_str (broker cfg) \<and> truthy_int (port cfg)
       then [MqttConnect (the (broker cfg)) (the (port cfg))] else [])
      @ [BleConnect d,
         WriteGattChar SF_COMMAND_CHAR
           (map of_nat (json_dumps (token_cmd (toggle_broker cfg) (WIFI_PWD cfg) (the (ssid cfg))))),
         WriteGattChar SF_COMMAND_CHAR
           (map of_char ''{\"messageId\":\"1003\",\"method\":\"station\"}'')]
      @ (if truthy_str (broker cfg) \<and> truthy_int (port cfg) \<and> mqtt_connect_res env = None
         then [Publish (register_topic (SF_PRODUCT_ID cfg) (SF_DEVICE_ID cfg))
                 (PStr (register_reply (clock env))) True]
         else [])
      @ [Sleep 30, BleDisconnect]"
    and "snd (run cfg env) = Done"
    and "token_write env = Some e \<Longrightarrow> Log ERROR (SettingUrlFailed e) \<in> set (fst (run cfg env))"
    and "station_write env = Some e \<Longrightarrow>
        Log ERROR (SettingWifiModeFailed e) \<in> set (fst (run cfg env))"
proof -
  let ?mq = "(truthy_str (broker cfg) \<and> truthy_int (port cfg)) \<and> mqtt_connect_res env = None"
  note st = session_toggle [OF assms(1) assms(5,6,7,8), of ?mq]
  note su = set_IoT_Url_trace [OF assms(5,6,7)]
  have d: "snd (session cfg ?mq env) = Done" unfolding st by simp
  note r = run_connected [OF assms(2,3,4) d]
  have c: "calls (fst (session cfg ?mq env)) =
      [WriteGattChar SF_COMMAND_CHAR
         (map of_nat (json_dumps (token_cmd (toggle_broker cfg) (WIFI_PWD cfg) (the (ssid cfg))))),
       WriteGattChar SF_COMMAND_CHAR
         (map of_char ''{\"messageId\":\"1003\",\"method\":\"station\"}'')]
      @ (if ?mq
         then [Publish (register_topic (SF_PRODUCT_ID cfg) (SF_DEVICE_ID cfg))
                 (PStr (register_reply (clock env))) True]
         else [])
      @ [Sleep 30]"
    unfolding st su by (simp add: calls_Cons_call)
  have 1: "calls (fst (run cfg env)) =
      (if truthy_str (broker cfg) \<and> truthy_int (port cfg)
       then [MqttConnect (the (broker cfg)) (the (port cfg))] else [])
      @ BleConnect d # calls (fst (session cfg ?mq env)) @ [BleDisconnect]"
    unfolding r using local_mqtt_connect_calls [OF assms(4)]
    by (simp add: calls_Cons_call)
  show "calls (fst (run cfg env)) =
      (if truthy_str (broker cfg) \<and> truthy_int (port cfg)
       then [MqttConnect (the (broker cfg)) (the (port cfg))] else [])
      @ [BleConnect d,
         WriteGattChar SF_COMMAND_CHAR
           (map of_nat (json_dumps (token_cmd (toggle_broker cfg) (WIFI_PWD cfg) (the (ssid cfg))))),
         WriteGattChar SF_COMMAND_CHAR
           (map of_char ''{\"messageId\":\"1003\",\"method\":\"station\"}'')]
      @ (if truthy_str (broker cfg) \<and> truthy_int (port cfg) \<and> mqtt_connect_res env = None
         then [Publish (register_topic (SF_PRODUCT_ID cfg) (SF_DEVICE_ID cfg))
                 (PStr (register_reply (clock env))) True]
         else [])
      @ [Sleep 30, BleDisconnect]"
    unfolding 1 c by (simp add: conj_assoc)
  show "snd (run cfg env) = Done" unfolding r by simp
  show "Log ERROR (SettingUrlFailed e) \<in> set (fst (run cfg env))" if "token_write env = Some e"
    unfolding r st su using that by (simp add: failure_log_def)
  show "Log ERROR (SettingWifiModeFailed e) \<in> set (fst (run cfg env))"
    if "station_write env = Some e"
    unfolding r st su using that by (simp add: failure_log_def)
qed

lemma call_in_calls: "ev \<in> set es \<Longrightarrow> \<not> is_log ev \<Longrightarrow> ev \<in> set (calls es)"
  by (simp add: calls_def)



lemma quiet_discovery: "discover_device (py ''ja72U0ha'') (scan quiet_env) = Inr (Some hub_b)"
  by (simp add: quiet_env_def discover_device_def find_device_by_filter_def product_class_def
      product_map_def hub_b_def name_matches_def startswith_def lower_def lower_cp_def)

lemma quiet_env_fields:
  "ble_connect_res quiet_env = None" "mqtt_connect_res quiet_env = None"
  "token_write quiet_env = None" "station_write quiet_env = None"
  "reply_publish quiet_env = None" "settle_sleep quiet_env = None"
  "clock quiet_env = 1700000000"
  by (simp_all add: quiet_env_def)

text \<open>
  C7, as amended. In a cloud-toggle run that finds the device and connects, with no
  awaited call cancelled, the calls are, in this order: the MQTT connection when a
  broker and a port are given, the BLE connection, the token write, the station-mode
  write, the retained registration reply when \<open>mq_client\<close> holds a client, the
  thirty-second sleep and the BLE disconnection; then \<open>run\<close> returns. No call subscribes
  to notifications. A write that raises leaves its error record and the sequence goes
  on.
\<close>

theorem cloud_toggle_sequence:
  assumes "disconnect_requested cfg \<or> connect_requested cfg"
    and "discover_device (SF_PRODUCT_ID cfg) (scan env) = Inr (Some d)"
    and "ble_connect_res env = None" "uncancelled (mqtt_connect_res env)"
    and "uncancelled (token_write env)" "uncancelled (station_write env)"
    and "reply_publish env = None" "settle_sleep env = None"
  shows "calls (fst (run cfg env)) =
      (if truthy_str (broker cfg) \<and> truthy_int (port cfg)
       then [MqttConnect (the (broker cfg)) (the (port cfg))] else [])
      @ [BleConnect d,
         WriteGattChar SF_COMMAND_CHAR
           (map of_nat (json_dumps (token_cmd (toggle_broker cfg) (WIFI_PWD cfg) (the (ssid cfg))))),
         WriteGattChar SF_COMMAND_CHAR
           (map of_char ''{\"messageId\":\"1003\",\"method\":\"station\"}'')]
      @ (if truthy_str (broker cfg) \<and> truthy_int (port cfg) \<and> mqtt_connect_res env = None
         then [Publish (register_topic (SF_PRODUCT_ID cfg) (SF_DEVICE_ID cfg))
                 (PStr (register_reply (clock env))) True]
         else [])
      @ [Sleep 30, BleDisconnect] \<and>
    snd (run cfg env) = Done \<and>
    (\<forall>e. token_write env = Some e \<longrightarrow> Log ERROR (SettingUrlFailed e) \<in> set (fst (run cfg env))) \<and>
    (\<forall>e. station_write env = Some e \<longrightarrow>
        Log ERROR (SettingWifiModeFailed e) \<in> set (fst (run cfg env)))"
  using toggle_run [OF assms] by blast

theorem cloud_toggle_sequence_witness:
  "disconnect_requested disconnect_config \<and>
   discover_device (SF_PRODUCT_ID disconnect_config) (scan quiet_env) = Inr (Some hub_b) \<and>
   calls (fst (run disconnect_config quiet_env)) =
     [MqttConnect (py ''192.168.1.100'') 1883,
      BleConnect hub_b,
      WriteGattChar SF_COMMAND_CHAR
        (map of_nat (json_dumps (token_cmd (py ''192.168.1.100'') (Some (py ''secret'')) (py ''HomeWifi'')))),
      WriteGattChar SF_COMMAND_CHAR (map of_char ''{\"messageId\":\"1003\",\"method\":\"station\"}''),
      Publish (py ''iot/ja72U0ha/dev1/register/replay'') (PStr (register_reply 1700000000)) True,
      Sleep 30,
      BleDisconnect] \<and>
   snd (run disconnect_config quiet_env) = Done"
proof -
  have dr: "disconnect_requested disconnect_config"
    by (simp add: disconnect_config_def default_config_def disconnect_requested_def
        truthy_str_def truthy_int_def)
  have pid: "SF_PRODUCT_ID disconnect_config = py ''ja72U0ha''"
    by (simp add: disconnect_config_def default_config_def)
  have dd: "discover_device (SF_PRODUCT_ID disconnect_config) (scan quiet_env) = Inr (Some hub_b)"
    unfolding pid by (rule quiet_discovery)
  have u: "uncancelled None" by (simp add: uncancelled_def)
  show ?thesis
    using cloud_toggle_sequence [of disconnect_config quiet_env hub_b] dr dd u
    by (simp add: quiet_env_fields)
       (simp add: disconnect_config_def default_config_def truthy_str_def truthy_int_def
          toggle_broker_def disconnect_requested_def register_topic_def fmt_opt_def)
qed

text \<open>
  The claim as stated, refuted: a connect-mode run with a broker publishes the retained
  registration reply, and the run never calls \<open>start_notify\<close>.
\<close>

theorem cloud_toggle_counterexample:
  "connect connect_config \<and> \<not> disconnect connect_config \<and>
   calls (fst (run connect_config quiet_env)) =
     [MqttConnect (py ''192.168.1.100'') 1883,
      BleConnect hub_b,
      WriteGattChar SF_COMMAND_CHAR
        (map of_nat (json_dumps (token_cmd (py ''mq.zen-iot.com'') None (py ''HomeWifi'')))),
      WriteGattChar SF_COMMAND_CHAR (map of_char ''{\"messageId\":\"1003\",\"method\":\"station\"}''),
      Publish (py ''iot/ja72U0ha/None/register/replay'') (PStr (register_reply 1700000000)) True,
      Sleep 30,
      BleDisconnect] \<and>
   StartNotify SF_NOTIFY_CHAR \<notin> set (fst (run connect_config quiet_env))"
proof -
  have cr: "disconnect_requested connect_config \<or> connect_requested connect_config"
    by (simp add: connect_config_def default_config_def connect_requested_def truthy_str_def)
  have ndr: "\<not> disconnect_requested connect_config"
    by (simp add: connect_config_def default_config_def disconnect_requested_def)
  have pid: "SF_PRODUCT_ID connect_config = py ''ja72U0ha''"
    by (simp add: connect_config_def default_config_def)
  have dd: "discover_device (SF_PRODUCT_ID connect_config) (scan quiet_env) = Inr (Some hub_b)"
    unfolding pid by (rule quiet_discovery)
  have u: "uncancelled None" by (simp add: uncancelled_def)
  have c: "calls (fst (run connect_config quiet_env)) =
     [MqttConnect (py ''192.168.1.100'') 1883,
      BleConnect hub_b,
      WriteGattChar SF_COMMAND_CHAR
        (map of_nat (json_dumps (token_cmd (py ''mq.zen-iot.com'') None (py ''HomeWifi'')))),
      WriteGattChar SF_COMMAND_CHAR (map of_char ''{\"messageId\":\"1003\",\"method\":\"station\"}''),
      Publish (py ''iot/ja72U0ha/None/register/replay'') (PStr (register_reply 1700000000)) True,
      Sleep 30,
      BleDisconnect]"
    using toggle_run(1) [of connect_config quiet_env hub_b] cr dd u ndr
    by (simp add: quiet_env_fields)
       (simp add: connect_config_def default_config_def truthy_str_def truthy_int_def
          toggle_broker_def register_topic_def fmt_opt_def)
  have n: "StartNotify SF_NOTIFY_CHAR \<notin> set (fst (run connect_config quiet_env))"
    using call_in_calls [of "StartNotify SF_NOTIFY_CHAR" "fst (run connect_config quiet_env)"]
    unfolding c by auto
  show ?thesis
    using c n by (simp add: connect_config_def default_config_def)
qed

section \<open>Mode selection\<close>


lemma emits_block_Nil: "emits_only P (block [])"
  by (simp add: emits_only_def)

lemma emits_block_Cons:
  "emits_only P a \<Longrightarrow> emits_only P (block as) \<Longrightarrow> emits_only P (block (a # as))"
  by (cases "snd a") (simp_all add: emits_only_def)

lemma emits_try:
  "emits_only P b \<Longrightarrow> (\<And>e. emits_only P (h e)) \<Longrightarrow> emits_only P (try_except b h)"
  by (cases "snd b") (simp_all add: emits_only_def try_except_def)

lemma emits_with_client:
  "P (BleConnect d) \<Longrightarrow> P BleDisconnect \<Longrightarrow> emits_only P b \<Longrightarrow>
   emits_only P (with_client d r b)"
  by (cases r; cases "snd b") (simp_all add: emits_only_def with_client_def call_def)

lemma emits_log: "P (Log l m) \<Longrightarrow> emits_only P (log l m)"
  by (simp add: emits_only_def)

lemma emits_call: "P ev \<Longrightarrow> emits_only P (call ev r)"
  by (simp add: emits_only_def)

lemma emits_skip: "emits_only P skip"
  by (simp add: emits_only_def)

lemma emits_raise: "emits_only P (raise e)"
  by (simp add: emits_only_def raise_def)

lemma emits_if:
  "(c \<Longrightarrow> emits_only P a) \<Longrightarrow> (\<not> c \<Longrightarrow> emits_only P b) \<Longrightarrow> emits_only P (if c then a else b)"
  by simp

lemma emits_case_sum:
  "(\<And>e. emits_only P (f e)) \<Longrightarrow> (\<And>b. emits_only P (g b)) \<Longrightarrow>
   emits_only P (case s of Inl e \<Rightarrow> f e | Inr b \<Rightarrow> g b)"
  by (cases s) simp_all

lemma emits_block_map:
  "(\<And>x. emits_only P (f x)) \<Longrightarrow> emits_only P (block (map f xs))"
  by (induction xs) (simp_all add: emits_block_Nil emits_block_Cons del: block.simps)

lemmas emits_intros =
  emits_block_Nil emits_block_Cons emits_try emits_with_client emits_log emits_call
  emits_skip emits_raise emits_if emits_case_sum emits_block_map


lemma emits_getInfo: "emits_only not_info_mark (getInfo now w1 w2)"
  unfolding getInfo_def write_command_def
  by (intro emits_intros) (simp_all add: not_info_mark_def)

lemma emits_mqtt: "emits_only not_info_mark (local_mqtt_connect cfg b p r)"
  by (cases r; cases "mqtt_user cfg"; cases "mqtt_pwd cfg")
     (simp_all add: local_mqtt_connect_def try_except_def emits_only_def not_info_mark_def)

lemma emits_set_IoT_Url: "emits_only not_info_mark (set_IoT_Url cfg mq b s did env)"
  unfolding set_IoT_Url_def Let_def
  by (intro emits_intros) (simp_all add: not_info_mark_def)

lemma emits_loop: "emits_only not_info_mark (continuous_loop i g its)"
proof (induction its arbitrary: g)
  case Nil
  then show ?case by (simp add: emits_only_def)
next
  case (Cons it its)
  let ?body = "block [call (StartNotify SF_NOTIFY_CHAR) (start_notify_res it),
                (if g then getInfo (poll_clock it) (info_write it) (properties_write it) else skip),
                call (Sleep i) (sleep_res it)]"
  let ?iter = "try_except ?body
                 (\<lambda>e. block [log ERROR (PollingLoopError e), call (Sleep 5) (backoff_res it)])"
  have n: "emits_only not_info_mark ?iter"
    by (intro emits_intros emits_getInfo) (simp_all add: not_info_mark_def)
  show ?case
    apply (subst continuous_loop.simps)
    apply (simp only: Let_def)
    apply (cases "snd ?iter")
    using n Cons.IH apply (simp_all add: emits_only_def)
    done
qed


lemma emits_case_option:
  "emits_only P a \<Longrightarrow> (\<And>x. emits_only P (f x)) \<Longrightarrow>
   emits_only P (case s of None \<Rightarrow> a | Some x \<Rightarrow> f x)"
  by (cases s) simp_all

lemma emits_session:
  assumes "\<not> (\<not> disconnect_requested cfg \<and> \<not> connect_requested cfg \<and>
               info_only cfg \<and> broker cfg = None)"
  shows "emits_only not_info_mark (session cfg mq env)"
  unfolding session_def
  using assms
  by (intro emits_intros emits_set_IoT_Url emits_loop emits_getInfo)
     (auto simp: not_info_mark_def)

lemma emits_run:
  assumes "\<not> (\<not> disconnect_requested cfg \<and> \<not> connect_requested cfg \<and>
               info_only cfg \<and> broker cfg = None)"
  shows "emits_only not_info_mark (run cfg env)"
  unfolding run_def Let_def
  by (intro emits_intros emits_case_option emits_mqtt emits_session [OF assms])
     (simp_all add: not_info_mark_def)

lemma info_mark_only_in_info_mode:
  assumes "Log INFO InfoOnlyMode \<in> set (fst (run cfg env))"
  shows "\<not> disconnect_requested cfg \<and> \<not> connect_requested cfg \<and>
         info_only cfg \<and> broker cfg = None"
proof (rule ccontr)
  assume "\<not> ?thesis"
  from emits_run [OF this, of env] assms show False
    by (auto simp: emits_only_def list_all_iff not_info_mark_def)
qed

lemma run_contains_session:
  assumes "discover_device (SF_PRODUCT_ID cfg) (scan env) = Inr (Some d)"
    "ble_connect_res env = None" "uncancelled (mqtt_connect_res env)"
  shows "set (fst (session cfg ((truthy_str (broker cfg) \<and> truthy_int (port cfg)) \<and> mqtt_connect_res env = None) env))
     \<subseteq> set (fst (run cfg env))"
  apply (simp only: run_def Let_def assms(1) sum.case option.case mqtt_block [OF assms(3)])
  apply (simp only: block_Done snd_conv fst_conv snd_log fst_log block_single)
  apply (cases "snd (session cfg ((truthy_str (broker cfg) \<and> truthy_int (port cfg)) \<and> mqtt_connect_res env = None) env)")
    apply (auto simp: with_client_def try_except_def assms(2))
  done


lemma session_info_mark:
  assumes "\<not> disconnect_requested cfg" "\<not> connect_requested cfg"
    "info_only cfg \<and> broker cfg = None"
  shows "Log INFO InfoOnlyMode \<in> set (fst (session cfg mq env))"
  using assms
  apply (simp only: session_def block_logs if_False if_True)
  apply (simp only: block_Done snd_log fst_log snd_conv fst_conv block_single)
  apply (simp del: block.simps)
  done



text \<open>
  C10, as amended. The first log record of the info-only branch occurs in a run only
  when the info flag is set and no broker is configured; so with the info flag and a
  broker the info-only branch is skipped. In a run that finds the device, connects and
  takes neither cloud-toggle branch, the info-only branch runs when the info flag is set
  and no broker is configured, and the continuous branch runs otherwise, in particular
  with the info flag and a broker.
\<close>

theorem info_only_branch_selection:
  "(Log INFO InfoOnlyMode \<in> set (fst (run cfg env)) \<longrightarrow> info_only cfg \<and> broker cfg = None) \<and>
   (info_only cfg \<and> broker cfg \<noteq> None \<longrightarrow> Log INFO InfoOnlyMode \<notin> set (fst (run cfg env))) \<and>
   (discover_device (SF_PRODUCT_ID cfg) (scan env) = Inr (Some d) \<and> ble_connect_res env = None \<and>
    uncancelled (mqtt_connect_res env) \<and>
    \<not> disconnect_requested cfg \<and> \<not> connect_requested cfg \<longrightarrow>
      (info_only cfg \<and> broker cfg = None \<longrightarrow>
         Log INFO InfoOnlyMode \<in> set (fst (run cfg env))) \<and>
      (\<not> (info_only cfg \<and> broker cfg = None) \<longrightarrow>
         Log INFO (ContinuousMode (GLOBAL_INFO_POLLING_INTERVAL cfg)) \<in> set (fst (run cfg env))))"
proof (intro conjI impI)
  assume "Log INFO InfoOnlyMode \<in> set (fst (run cfg env))"
  from info_mark_only_in_info_mode [OF this]
  show "info_only cfg" "broker cfg = None" by simp_all
next
  assume "info_only cfg \<and> broker cfg \<noteq> None"
  then show "Log INFO InfoOnlyMode \<notin> set (fst (run cfg env))"
    using info_mark_only_in_info_mode [of cfg env] by auto
next
  assume r: "discover_device (SF_PRODUCT_ID cfg) (scan env) = Inr (Some d) \<and>
    ble_connect_res env = None \<and> uncancelled (mqtt_connect_res env) \<and>
    \<not> disconnect_requested cfg \<and> \<not> connect_requested cfg"
  then have sub: "set (fst (session cfg ((truthy_str (broker cfg) \<and> truthy_int (port cfg)) \<and> mqtt_connect_res env = None) env))
     \<subseteq> set (fst (run cfg env))"
    using run_contains_session by blast
  {
    assume "info_only cfg \<and> broker cfg = None"
    then show "Log INFO InfoOnlyMode \<in> set (fst (run cfg env))"
      using session_info_mark r sub by blast
  }
  {
    assume c: "\<not> (info_only cfg \<and> broker cfg = None)"
    have "Log INFO (ContinuousMode (GLOBAL_INFO_POLLING_INTERVAL cfg))
        \<in> set (fst (session cfg ((truthy_str (broker cfg) \<and> truthy_int (port cfg)) \<and> mqtt_connect_res env = None) env))"
      using r c by (subst session_continuous) simp_all
    then show "Log INFO (ContinuousMode (GLOBAL_INFO_POLLING_INTERVAL cfg)) \<in> set (fst (run cfg env))"
      using sub by blast
  }
qed

theorem info_only_branch_selection_witness:
  "info_only info_broker_config \<and> broker info_broker_config \<noteq> None \<and>
   discover_device (SF_PRODUCT_ID info_broker_config) (scan quiet_env) = Inr (Some hub_b) \<and>
   Log INFO InfoOnlyMode \<notin> set (fst (run info_broker_config quiet_env)) \<and>
   Log INFO (ContinuousMode 60) \<in> set (fst (run info_broker_config quiet_env))"
proof -
  have f: "info_only info_broker_config" "broker info_broker_config \<noteq> None"
    "\<not> disconnect_requested info_broker_config" "\<not> connect_requested info_broker_config"
    "SF_PRODUCT_ID info_broker_config = py ''ja72U0ha''"
    "GLOBAL_INFO_POLLING_INTERVAL info_broker_config = 60"
    by (simp_all add: info_broker_config_def default_config_def disconnect_requested_def
        connect_requested_def)
  have dd: "discover_device (SF_PRODUCT_ID info_broker_config) (scan quiet_env) = Inr (Some hub_b)"
    unfolding f(5) by (rule quiet_discovery)
  have u: "uncancelled (mqtt_connect_res quiet_env)"
    by (simp add: quiet_env_fields uncancelled_def)
  show ?thesis
    using info_only_branch_selection [of info_broker_config quiet_env hub_b] f dd u
      quiet_env_fields(1)
    by simp
qed

text \<open>
  The claim as stated, refuted: with the info flag, a broker and the connect flag, the
  run is a cloud-toggle run that returns; the polling loop is never entered.
\<close>

theorem info_with_broker_counterexample:
  "info_only info_connect_config \<and> broker info_connect_config = Some (py ''192.168.1.100'') \<and>
   calls (fst (run info_connect_config quiet_env)) =
     [MqttConnect (py ''192.168.1.100'') 1883,
      BleConnect hub_b,
      WriteGattChar SF_COMMAND_CHAR
        (map of_nat (json_dumps (token_cmd (py ''mq.zen-iot.com'') None (py ''HomeWifi'')))),
      WriteGattChar SF_COMMAND_CHAR (map of_char ''{\"messageId\":\"1003\",\"method\":\"station\"}''),
      Publish (py ''iot/ja72U0ha/None/register/replay'') (PStr (register_reply 1700000000)) True,
      Sleep 30,
      BleDisconnect] \<and>
   snd (run info_connect_config quiet_env) = Done"
proof -
  have cr: "disconnect_requested info_connect_config \<or> connect_requested info_connect_config"
    by (simp add: info_connect_config_def connect_config_def default_config_def
        connect_requested_def truthy_str_def)
  have ndr: "\<not> disconnect_requested info_connect_config"
    by (simp add: info_connect_config_def connect_config_def default_config_def
        disconnect_requested_def)
  have pid: "SF_PRODUCT_ID info_connect_config = py ''ja72U0ha''"
    by (simp add: info_connect_config_def connect_config_def default_config_def)
  have dd: "discover_device (SF_PRODUCT_ID info_connect_config) (scan quiet_env) = Inr (Some hub_b)"
    unfolding pid by (rule quiet_discovery)
  have u: "uncancelled None" by (simp add: uncancelled_def)
  have c: "calls (fst (run info_connect_config quiet_env)) =
     [MqttConnect (py ''192.168.1.100'') 1883,
      BleConnect hub_b,
      WriteGattChar SF_COMMAND_CHAR
        (map of_nat (json_dumps (token_cmd (py ''mq.zen-iot.com'') None (py ''HomeWifi'')))),
      WriteGattChar SF_COMMAND_CHAR (map of_char ''{\"messageId\":\"1003\",\"method\":\"station\"}''),
      Publish (py ''iot/ja72U0ha/None/register/replay'') (PStr (register_reply 1700000000)) True,
      Sleep 30,
      BleDisconnect]"
    using toggle_run(1) [of info_connect_config quiet_env hub_b] cr dd u ndr
    by (simp add: quiet_env_fields)
       (simp add: info_connect_config_def connect_config_def default_config_def truthy_str_def
          truthy_int_def toggle_broker_def register_topic_def fmt_opt_def)
  have d: "snd (run info_connect_config quiet_env) = Done"
    using toggle_run(2) [of info_connect_config quiet_env hub_b] cr dd u
    by (simp add: quiet_env_fields)
  show ?thesis
    using c d by (simp add: info_connect_config_def connect_config_def default_config_def)
qed

section \<open>The notification handler returns on every input\<close>



































lemma info_part_other:
  "map_of obj (py ''method'') \<noteq> Some (PStr (py ''getInfo-rsp'')) \<Longrightarrow>
   info_part (PDict obj) = skip"
  by (cases "map_of obj (py ''method'')") (simp_all add: info_part_def)

lemma info_part_full:
  "map_of obj (py ''method'') = Some (PStr (py ''getInfo-rsp'')) \<Longrightarrow>
   map_of obj (py ''deviceId'') = Some d \<Longrightarrow> map_of obj (py ''deviceSn'') = Some sn \<Longrightarrow>
   info_part (PDict obj) = ([Log SUCCESS (DeviceID d), Log SUCCESS (DeviceSN sn)], Done)"
  by (simp add: info_part_def)

lemma properties_part_absent:
  "map_of obj (py ''properties'') = None \<Longrightarrow> properties_part lib cfg (PDict obj) = skip"
  by (simp add: properties_part_def)

lemma packdata_part_absent:
  "map_of obj (py ''packData'') = None \<Longrightarrow> packdata_part lib (PDict obj) = skip"
  by (simp add: packdata_part_def)

lemma sink_part_absent:
  "\<not> mq_client \<or> map_of obj (py ''properties'') = None \<and> map_of obj (py ''packData'') = None \<Longrightarrow>
   (if mq_client
    then block [properties_part lib cfg (PDict obj), packdata_part lib (PDict obj)]
    else skip) = ([], Done)"
  by (auto simp: properties_part_absent packdata_part_absent skip_def)

lemma handle_rx_completed:
  "snd (handle_rx_body lib cfg mq_client data) = Done \<Longrightarrow>
   handle_rx lib cfg mq_client data = handle_rx_body lib cfg mq_client data"
  by (simp add: handle_rx_def Let_def)

lemma handle_rx_body_decoded:
  "utf8_decode data = Some t \<Longrightarrow> json_loads lib t = Inr payload \<Longrightarrow>
   handle_rx_body lib cfg mq_client data =
     block [log DEBUG (Received payload), info_part payload,
            if mq_client
            then block [properties_part lib cfg payload, packdata_part lib payload]
            else skip]"
  by (simp add: handle_rx_body_def)


lemma handle_rx_other:
  assumes "utf8_decode data = Some t" "json_loads lib t = Inr (PDict obj)"
    and "map_of obj (py ''method'') \<noteq> Some (PStr (py ''getInfo-rsp''))"
    and "\<not> mq_client \<or>
         map_of obj (py ''properties'') = None \<and> map_of obj (py ''packData'') = None"
  shows "handle_rx lib cfg mq_client data = ([Log DEBUG (Received (PDict obj))], Done)"
proof -
  have "handle_rx_body lib cfg mq_client data = ([Log DEBUG (Received (PDict obj))], Done)"
    unfolding handle_rx_body_decoded [OF assms(1,2)] sink_part_absent [OF assms(4)]
      info_part_other [OF assms(3)]
    by simp
  then show ?thesis by (simp add: handle_rx_completed)
qed

lemma ascii_points: "list_all (\<lambda>c. c < 128) s \<Longrightarrow> utf8_points s = Some s"
  by (induction s) simp_all

lemma unat_of_char: "unat (of_char c :: byte) = of_char c"
proof -
  have "unat (of_nat (of_char c :: nat) :: byte) = (of_char c :: nat) mod 2 ^ 8"
    by (simp add: unat_of_nat del: of_nat_of_char)
  also have "\<dots> = of_char c" by simp
  finally show ?thesis by (simp only: of_nat_of_char)
qed

lemma utf8_decode_ascii:
  "list_all (\<lambda>c. of_char c < (128::nat)) s \<Longrightarrow> utf8_decode (ascii_bytes s) = Some (py s)"
proof -
  assume a: "list_all (\<lambda>c. of_char c < (128::nat)) s"
  have m: "map unat (ascii_bytes s) = py s"
    by (simp add: ascii_bytes_def unat_of_char)
  have "list_all (\<lambda>c. c < 128) (py s)" using a by (induction s) simp_all
  then show ?thesis by (simp add: utf8_decode_def m ascii_points)
qed

text \<open>The rules that evaluate \<open>json_loads\<close> on a given text.\<close>

lemmas loads_eval =
  json_loads_def startswith_def scan_text.simps(2) is_ws_def next_token_def
  scan_string.simps(2) scan_literal_def scan_number_def int_part_def frac_part_def
  exp_part_def int_of_text_def nat_of_digits_def is_digit_def dict_of_def





section \<open>Pack data\<close>

lemma published_append: "published (xs @ ys) = published xs @ published ys"
  by (induction xs rule: published.induct) simp_all

lemma mq_publish_accepted:
  "accepted lib topic v \<Longrightarrow> mq_publish lib topic v = ([Publish topic v False], Done)"
  by (simp add: accepted_def mq_publish_def call_def)

lemma block_all_done:
  "(\<And>a. a \<in> set as \<Longrightarrow> snd a = Done) \<Longrightarrow> block as = (concat (map fst as), Done)"
  by (induction as) simp_all

lemma publish_all_accepted:
  assumes "\<And>kv. kv \<in> set kvs \<Longrightarrow> accepted lib (f kv) (snd kv)"
  shows "block (map (\<lambda>kv. mq_publish lib (f kv) (snd kv)) kvs) =
         (map (\<lambda>kv. Publish (f kv) (snd kv) False) kvs, Done)"
proof -
  have e: "map (\<lambda>kv. mq_publish lib (f kv) (snd kv)) kvs =
           map (\<lambda>kv. ([Publish (f kv) (snd kv) False], Done)) kvs"
    using assms by (simp add: mq_publish_accepted)
  show ?thesis
    unfolding e
    by (subst block_all_done) (auto simp: comp_def)
qed

lemma published_publishes:
  "published (map (\<lambda>kv. Publish (f kv) (snd kv) False) kvs) = map (\<lambda>kv. (f kv, snd kv)) kvs"
  by (induction kvs) simp_all

lemma publish_pack_good:
  assumes s: "has_sn pack"
    and a: "\<And>m. m \<in> set (pack_messages lib pack) \<Longrightarrow> accepted lib (fst m) (snd m)"
  shows "snd (publish_pack lib pack) = Done \<and>
         published (fst (publish_pack lib pack)) = pack_messages lib pack"
proof -
  from s obtain kvs sn where p: "pack = PDict kvs" and m: "map_of kvs (py ''sn'') = Some sn"
    by (cases pack) auto
  let ?rest = "filter (\<lambda>kv. fst kv \<noteq> py ''sn'') kvs"
  have acc: "\<And>kv. kv \<in> set ?rest \<Longrightarrow> accepted lib (battery_topic lib sn (fst kv)) (snd kv)"
  proof -
    fix kv assume "kv \<in> set ?rest"
    then have "(battery_topic lib sn (fst kv), snd kv) \<in> set (pack_messages lib pack)"
      using p m by auto
    then show "accepted lib (battery_topic lib sn (fst kv)) (snd kv)"
      using a by fastforce
  qed
  have b: "block (map (\<lambda>kv. mq_publish lib (battery_topic lib sn (fst kv)) (snd kv)) ?rest) =
           (map (\<lambda>kv. Publish (battery_topic lib sn (fst kv)) (snd kv) False) ?rest, Done)"
    by (rule publish_all_accepted) (rule acc)
  have pp: "publish_pack lib pack =
     (Log DEBUG (PackSN sn)
      # map (\<lambda>kv. Publish (battery_topic lib sn (fst kv)) (snd kv) False) ?rest, Done)"
    using p m b by (simp add: publish_pack_def)
  show ?thesis
    using p m pp by (simp add: published_publishes)
qed

lemma packs_published:
  assumes "\<And>pack. pack \<in> set packs \<Longrightarrow>
      snd (publish_pack lib pack) = Done \<and>
      published (fst (publish_pack lib pack)) = pack_messages lib pack"
  shows "snd (block (map (publish_pack lib) packs)) = Done \<and>
         published (fst (block (map (publish_pack lib) packs))) =
           concat (map (pack_messages lib) packs)"
  using assms by (induction packs) (simp_all add: published_append)

lemma pack_example_text:
  \<open>utf8_decode pack_example =
     Some (py ''{"packData":[{"sn":"ABC123","volt":52.1,"temp":30}]}'')\<close>
  unfolding pack_example_def by (rule utf8_decode_ascii) simp

lemma pack_example_payload:
  \<open>3 \<le> depth_limit lib \<Longrightarrow> \<not> int_refused lib (py ''30'') \<Longrightarrow>
   json_loads lib (py ''{"packData":[{"sn":"ABC123","volt":52.1,"temp":30}]}'') =
     Inr (PDict [(py ''packData'',
            PList [PDict [(py ''sn'', PStr (py ''ABC123'')),
                          (py ''volt'', PFloat (float_of lib (py ''52.1''))),
                          (py ''temp'', PInt 30)]])])\<close>
  by (simp add: loads_eval)

lemma info_part_completes:
  assumes "map_of obj (py ''method'') \<noteq> Some (PStr (py ''getInfo-rsp'')) \<or>
           map_of obj (py ''deviceId'') \<noteq> None \<and> map_of obj (py ''deviceSn'') \<noteq> None"
  shows "snd (info_part (PDict obj)) = Done \<and> published (fst (info_part (PDict obj))) = []"
proof (cases "map_of obj (py ''method'') = Some (PStr (py ''getInfo-rsp''))")
  case True
  with assms obtain d sn where
    "map_of obj (py ''deviceId'') = Some d" "map_of obj (py ''deviceSn'') = Some sn"
    by auto
  with True show ?thesis by (simp add: info_part_full)
next
  case False
  then show ?thesis by (simp add: info_part_other)
qed

lemma packdata_part_good:
  assumes pd: "map_of obj (py ''packData'') = Some (PList packs)"
    and good: "\<And>pack. pack \<in> set packs \<Longrightarrow> has_sn pack \<and>
       (\<forall>m \<in> set (pack_messages lib pack). accepted lib (fst m) (snd m))"
  shows "snd (packdata_part lib (PDict obj)) = Done \<and>
         published (fst (packdata_part lib (PDict obj))) =
           concat (map (pack_messages lib) packs)"
proof -
  have each: "\<And>pack. pack \<in> set packs \<Longrightarrow>
      snd (publish_pack lib pack) = Done \<and>
      published (fst (publish_pack lib pack)) = pack_messages lib pack"
    using good by (intro publish_pack_good) auto
  note all = packs_published [of packs lib, OF each]
  show ?thesis
  proof (cases "packs = []")
    case True
    then show ?thesis using pd by (simp add: packdata_part_def)
  next
    case False
    then show ?thesis using pd all by (simp add: packdata_part_def)
  qed
qed

text \<open>
  C2. With an MQTT client set, take a notification that decodes to a JSON object
  whose \<open>packData\<close> is a list of packs, each a mapping with an \<open>sn\<close>, which has no
  \<open>properties\<close> and whose \<open>method\<close> is not \<open>getInfo-rsp\<close> (or which has \<open>deviceId\<close>
  and \<open>deviceSn\<close>), and let the client accept the messages. Then \<open>handle_rx\<close> returns,
  and the messages it publishes are, pack after pack in the order of the list, those of
  \<open>pack_messages\<close>: for a pack with serial \<open>sn\<close>, every property other than \<open>sn\<close> has
  its message, on the topic \<open>solarflow-hub/telemetry/batteries/<sn>/<property>\<close>, and
  every message of the pack is the message of a property other than \<open>sn\<close>. The bytes
  of \<open>{"packData":[{"sn":"ABC123","volt":52.1,"temp":30}]}\<close> decode to one pack with
  \<open>sn\<close> \<open>ABC123\<close>, \<open>volt\<close> and \<open>temp\<close>, and \<open>handle_rx\<close> logs one pack with that
  serial and publishes \<open>volt\<close> and \<open>temp\<close> under \<open>ABC123\<close>, and nothing for \<open>sn\<close>;
  without an MQTT client it logs the payload and does nothing else.
\<close>

theorem handle_rx_pack_data:
  \<open>(utf8_decode data = Some t \<and> json_loads lib t = Inr (PDict obj) \<and>
    (map_of obj (py ''method'') \<noteq> Some (PStr (py ''getInfo-rsp'')) \<or>
     map_of obj (py ''deviceId'') \<noteq> None \<and> map_of obj (py ''deviceSn'') \<noteq> None) \<and>
    map_of obj (py ''properties'') = None \<and>
    map_of obj (py ''packData'') = Some (PList packs) \<and>
    (\<forall>pack \<in> set packs. has_sn pack \<and>
       (\<forall>m \<in> set (pack_messages lib pack). accepted lib (fst m) (snd m))) \<longrightarrow>
    snd (handle_rx lib cfg True data) = Done \<and>
    published (fst (handle_rx lib cfg True data)) = concat (map (pack_messages lib) packs)) \<and>
   (map_of kvs (py ''sn'') = Some sn \<longrightarrow>
      pack_messages lib (PDict kvs) =
        map (\<lambda>kv. (py ''solarflow-hub/telemetry/batteries/'' @ py_str lib sn @ py ''/'' @ fst kv,
                    snd kv))
          (filter (\<lambda>kv. fst kv \<noteq> py ''sn'') kvs) \<and>
      (\<forall>kv \<in> set kvs. fst kv \<noteq> py ''sn'' \<longrightarrow>
         (battery_topic lib sn (fst kv), snd kv) \<in> set (pack_messages lib (PDict kvs))) \<and>
      (\<forall>m \<in> set (pack_messages lib (PDict kvs)).
         \<exists>kv \<in> set kvs. fst kv \<noteq> py ''sn'' \<and> m = (battery_topic lib sn (fst kv), snd kv))) \<and>
   (3 \<le> depth_limit lib \<and> \<not> int_refused lib (py ''30'') \<longrightarrow>
    utf8_decode pack_example =
      Some (py ''{"packData":[{"sn":"ABC123","volt":52.1,"temp":30}]}'') \<and>
    json_loads lib (py ''{"packData":[{"sn":"ABC123","volt":52.1,"temp":30}]}'') =
      Inr (PDict [(py ''packData'',
          PList [PDict [(py ''sn'', PStr (py ''ABC123'')),
                        (py ''volt'', PFloat (float_of lib (py ''52.1''))),
                        (py ''temp'', PInt 30)]])]) \<and>
    handle_rx lib cfg False pack_example =
      ([Log DEBUG (Received (PDict [(py ''packData'',
          PList [PDict [(py ''sn'', PStr (py ''ABC123'')),
                        (py ''volt'', PFloat (float_of lib (py ''52.1''))),
                        (py ''temp'', PInt 30)]])]))], Done) \<and>
    (accepted lib (py ''solarflow-hub/telemetry/batteries/ABC123/volt'')
       (PFloat (float_of lib (py ''52.1''))) \<and>
     accepted lib (py ''solarflow-hub/telemetry/batteries/ABC123/temp'') (PInt 30) \<longrightarrow>
     handle_rx lib cfg True pack_example =
       ([Log DEBUG (Received (PDict [(py ''packData'',
           PList [PDict [(py ''sn'', PStr (py ''ABC123'')),
                         (py ''volt'', PFloat (float_of lib (py ''52.1''))),
                         (py ''temp'', PInt 30)]])])),
         Log INFO (BatteryPacks 1),
         Log DEBUG (PackSN (PStr (py ''ABC123''))),
         Publish (py ''solarflow-hub/telemetry/batteries/ABC123/volt'')
           (PFloat (float_of lib (py ''52.1''))) False,
         Publish (py ''solarflow-hub/telemetry/batteries/ABC123/temp'') (PInt 30) False],
        Done)))\<close>
proof -
  have general: \<open>utf8_decode data = Some t \<and> json_loads lib t = Inr (PDict obj) \<and>
    (map_of obj (py ''method'') \<noteq> Some (PStr (py ''getInfo-rsp'')) \<or>
     map_of obj (py ''deviceId'') \<noteq> None \<and> map_of obj (py ''deviceSn'') \<noteq> None) \<and>
    map_of obj (py ''properties'') = None \<and>
    map_of obj (py ''packData'') = Some (PList packs) \<and>
    (\<forall>pack \<in> set packs. has_sn pack \<and>
       (\<forall>m \<in> set (pack_messages lib pack). accepted lib (fst m) (snd m))) \<longrightarrow>
    snd (handle_rx lib cfg True data) = Done \<and>
    published (fst (handle_rx lib cfg True data)) = concat (map (pack_messages lib) packs)\<close>
  proof (intro impI, elim conjE)
    assume u: "utf8_decode data = Some t" and j: "json_loads lib t = Inr (PDict obj)"
      and m: "map_of obj (py ''method'') \<noteq> Some (PStr (py ''getInfo-rsp'')) \<or>
        map_of obj (py ''deviceId'') \<noteq> None \<and> map_of obj (py ''deviceSn'') \<noteq> None"
      and p: "map_of obj (py ''properties'') = None"
      and pd: "map_of obj (py ''packData'') = Some (PList packs)"
      and good: "\<forall>pack \<in> set packs. has_sn pack \<and>
        (\<forall>m \<in> set (pack_messages lib pack). accepted lib (fst m) (snd m))"
    note i = info_part_completes [OF m]
    have k: "snd (packdata_part lib (PDict obj)) = Done \<and>
         published (fst (packdata_part lib (PDict obj))) =
           concat (map (pack_messages lib) packs)"
      using good by (intro packdata_part_good [OF pd]) blast
    have res: "snd (handle_rx_body lib cfg True data) = Done \<and>
      published (fst (handle_rx_body lib cfg True data)) =
        concat (map (pack_messages lib) packs)"
      unfolding handle_rx_body_decoded [OF u j] properties_part_absent [OF p]
      using i k by (simp add: published_append)
    show "snd (handle_rx lib cfg True data) = Done \<and>
      published (fst (handle_rx lib cfg True data)) = concat (map (pack_messages lib) packs)"
      using res by (simp add: handle_rx_completed)
  qed
  have pack: \<open>map_of kvs (py ''sn'') = Some sn \<longrightarrow>
      pack_messages lib (PDict kvs) =
        map (\<lambda>kv. (py ''solarflow-hub/telemetry/batteries/'' @ py_str lib sn @ py ''/'' @ fst kv,
                    snd kv))
          (filter (\<lambda>kv. fst kv \<noteq> py ''sn'') kvs) \<and>
      (\<forall>kv \<in> set kvs. fst kv \<noteq> py ''sn'' \<longrightarrow>
         (battery_topic lib sn (fst kv), snd kv) \<in> set (pack_messages lib (PDict kvs))) \<and>
      (\<forall>m \<in> set (pack_messages lib (PDict kvs)).
         \<exists>kv \<in> set kvs. fst kv \<noteq> py ''sn'' \<and> m = (battery_topic lib sn (fst kv), snd kv))\<close>
    by (auto simp: battery_topic_def intro!: bexI)
  have example: \<open>3 \<le> depth_limit lib \<and> \<not> int_refused lib (py ''30'') \<longrightarrow>
    utf8_decode pack_example =
      Some (py ''{"packData":[{"sn":"ABC123","volt":52.1,"temp":30}]}'') \<and>
    json_loads lib (py ''{"packData":[{"sn":"ABC123","volt":52.1,"temp":30}]}'') =
      Inr (PDict [(py ''packData'',
          PList [PDict [(py ''sn'', PStr (py ''ABC123'')),
                        (py ''volt'', PFloat (float_of lib (py ''52.1''))),
                        (py ''temp'', PInt 30)]])]) \<and>
    handle_rx lib cfg False pack_example =
      ([Log DEBUG (Received (PDict [(py ''packData'',
          PList [PDict [(py ''sn'', PStr (py ''ABC123'')),
                        (py ''volt'', PFloat (float_of lib (py ''52.1''))),
                        (py ''temp'', PInt 30)]])]))], Done) \<and>
    (accepted lib (py ''solarflow-hub/telemetry/batteries/ABC123/volt'')
       (PFloat (float_of lib (py ''52.1''))) \<and>
     accepted lib (py ''solarflow-hub/telemetry/batteries/ABC123/temp'') (PInt 30) \<longrightarrow>
     handle_rx lib cfg True pack_example =
       ([Log DEBUG (Received (PDict [(py ''packData'',
           PList [PDict [(py ''sn'', PStr (py ''ABC123'')),
                         (py ''volt'', PFloat (float_of lib (py ''52.1''))),
                         (py ''temp'', PInt 30)]])])),
         Log INFO (BatteryPacks 1),
         Log DEBUG (PackSN (PStr (py ''ABC123''))),
         Publish (py ''solarflow-hub/telemetry/batteries/ABC123/volt'')
           (PFloat (float_of lib (py ''52.1''))) False,
         Publish (py ''solarflow-hub/telemetry/batteries/ABC123/temp'') (PInt 30) False],
        Done))\<close>
  proof (intro impI, elim conjE)
    assume l: "3 \<le> depth_limit lib" and n: \<open>\<not> int_refused lib (py ''30'')\<close>
    note j = pack_example_payload [OF l n]
    note b = handle_rx_body_decoded [OF pack_example_text j]
    have off: \<open>handle_rx lib cfg False pack_example =
      ([Log DEBUG (Received (PDict [(py ''packData'',
          PList [PDict [(py ''sn'', PStr (py ''ABC123'')),
                        (py ''volt'', PFloat (float_of lib (py ''52.1''))),
                        (py ''temp'', PInt 30)]])]))], Done)\<close>
      by (rule handle_rx_other [OF pack_example_text j]) simp_all
    have on: \<open>handle_rx lib cfg True pack_example =
       ([Log DEBUG (Received (PDict [(py ''packData'',
           PList [PDict [(py ''sn'', PStr (py ''ABC123'')),
                         (py ''volt'', PFloat (float_of lib (py ''52.1''))),
                         (py ''temp'', PInt 30)]])])),
         Log INFO (BatteryPacks 1),
         Log DEBUG (PackSN (PStr (py ''ABC123''))),
         Publish (py ''solarflow-hub/telemetry/batteries/ABC123/volt'')
           (PFloat (float_of lib (py ''52.1''))) False,
         Publish (py ''solarflow-hub/telemetry/batteries/ABC123/temp'') (PInt 30) False],
        Done)\<close>
      if a: \<open>accepted lib (py ''solarflow-hub/telemetry/batteries/ABC123/volt'')
           (PFloat (float_of lib (py ''52.1''))) \<and>
         accepted lib (py ''solarflow-hub/telemetry/batteries/ABC123/temp'') (PInt 30)\<close>
    proof -
      have \<open>handle_rx_body lib cfg True pack_example =
       ([Log DEBUG (Received (PDict [(py ''packData'',
           PList [PDict [(py ''sn'', PStr (py ''ABC123'')),
                         (py ''volt'', PFloat (float_of lib (py ''52.1''))),
                         (py ''temp'', PInt 30)]])])),
         Log INFO (BatteryPacks 1),
         Log DEBUG (PackSN (PStr (py ''ABC123''))),
         Publish (py ''solarflow-hub/telemetry/batteries/ABC123/volt'')
           (PFloat (float_of lib (py ''52.1''))) False,
         Publish (py ''solarflow-hub/telemetry/batteries/ABC123/temp'') (PInt 30) False],
        Done)\<close>
        unfolding b using a
        by (simp add: info_part_def properties_part_def packdata_part_def publish_pack_def
            battery_topic_def mq_publish_accepted)
      then show ?thesis by (simp add: handle_rx_completed)
    qed
    show \<open>utf8_decode pack_example =
      Some (py ''{"packData":[{"sn":"ABC123","volt":52.1,"temp":30}]}'') \<and>
    json_loads lib (py ''{"packData":[{"sn":"ABC123","volt":52.1,"temp":30}]}'') =
      Inr (PDict [(py ''packData'',
          PList [PDict [(py ''sn'', PStr (py ''ABC123'')),
                        (py ''volt'', PFloat (float_of lib (py ''52.1''))),
                        (py ''temp'', PInt 30)]])]) \<and>
    handle_rx lib cfg False pack_example =
      ([Log DEBUG (Received (PDict [(py ''packData'',
          PList [PDict [(py ''sn'', PStr (py ''ABC123'')),
                        (py ''volt'', PFloat (float_of lib (py ''52.1''))),
                        (py ''temp'', PInt 30)]])]))], Done) \<and>
    (accepted lib (py ''solarflow-hub/telemetry/batteries/ABC123/volt'')
       (PFloat (float_of lib (py ''52.1''))) \<and>
     accepted lib (py ''solarflow-hub/telemetry/batteries/ABC123/temp'') (PInt 30) \<longrightarrow>
     handle_rx lib cfg True pack_example =
       ([Log DEBUG (Received (PDict [(py ''packData'',
           PList [PDict [(py ''sn'', PStr (py ''ABC123'')),
                         (py ''volt'', PFloat (float_of lib (py ''52.1''))),
                         (py ''temp'', PInt 30)]])])),
         Log INFO (BatteryPacks 1),
         Log DEBUG (PackSN (PStr (py ''ABC123''))),
         Publish (py ''solarflow-hub/telemetry/batteries/ABC123/volt'')
           (PFloat (float_of lib (py ''52.1''))) False,
         Publish (py ''solarflow-hub/telemetry/batteries/ABC123/temp'') (PInt 30) False],
        Done))\<close>
      using pack_example_text j off on by (intro conjI impI)
  qed
  show ?thesis
    using general pack example by (intro conjI)
qed

theorem handle_rx_pack_data_witness:
  \<open>utf8_decode pack_example =
     Some (py ''{"packData":[{"sn":"ABC123","volt":52.1,"temp":30}]}'') \<and>
   json_loads example_lib (py ''{"packData":[{"sn":"ABC123","volt":52.1,"temp":30}]}'') =
     Inr (PDict [(py ''packData'',
         PList [PDict [(py ''sn'', PStr (py ''ABC123'')),
                       (py ''volt'', PFloat (py ''52.1'')),
                       (py ''temp'', PInt 30)]])]) \<and>
   pack_messages example_lib
     (PDict [(py ''sn'', PStr (py ''ABC123'')), (py ''volt'', PFloat (py ''52.1'')),
             (py ''temp'', PInt 30)]) =
     [(py ''solarflow-hub/telemetry/batteries/ABC123/volt'', PFloat (py ''52.1'')),
      (py ''solarflow-hub/telemetry/batteries/ABC123/temp'', PInt 30)] \<and>
   published (fst (handle_rx example_lib dev1_config True pack_example)) =
     [(py ''solarflow-hub/telemetry/batteries/ABC123/volt'', PFloat (py ''52.1'')),
      (py ''solarflow-hub/telemetry/batteries/ABC123/temp'', PInt 30)] \<and>
   handle_rx example_lib dev1_config True pack_example =
     ([Log DEBUG (Received (PDict [(py ''packData'',
         PList [PDict [(py ''sn'', PStr (py ''ABC123'')),
                       (py ''volt'', PFloat (py ''52.1'')),
                       (py ''temp'', PInt 30)]])])),
       Log INFO (BatteryPacks 1),
       Log DEBUG (PackSN (PStr (py ''ABC123''))),
       Publish (py ''solarflow-hub/telemetry/batteries/ABC123/volt'') (PFloat (py ''52.1'')) False,
       Publish (py ''solarflow-hub/telemetry/batteries/ABC123/temp'') (PInt 30) False],
      Done) \<and>
   handle_rx example_lib dev1_config False pack_example =
     ([Log DEBUG (Received (PDict [(py ''packData'',
         PList [PDict [(py ''sn'', PStr (py ''ABC123'')),
                       (py ''volt'', PFloat (py ''52.1'')),
                       (py ''temp'', PInt 30)]])]))], Done)\<close>
proof -
  let ?pack = \<open>[(py ''sn'', PStr (py ''ABC123'')), (py ''volt'', PFloat (py ''52.1'')),
                (py ''temp'', PInt 30)]\<close>
  note inst = handle_rx_pack_data [where data = pack_example
      and t = \<open>py ''{"packData":[{"sn":"ABC123","volt":52.1,"temp":30}]}''\<close>
      and lib = example_lib and cfg = dev1_config
      and obj = \<open>[(py ''packData'', PList [PDict ?pack])]\<close>
      and packs = \<open>[PDict ?pack]\<close> and kvs = ?pack and sn = \<open>PStr (py ''ABC123'')\<close>]
  have l: "3 \<le> depth_limit example_lib" and n: \<open>\<not> int_refused example_lib (py ''30'')\<close>
    and f: \<open>float_of example_lib (py ''52.1'') = py ''52.1''\<close>
    by (simp_all add: example_lib_def is_digit_def plain_float_def)
  have a: \<open>accepted example_lib (py ''solarflow-hub/telemetry/batteries/ABC123/volt'')
       (PFloat (py ''52.1''))\<close>
     \<open>accepted example_lib (py ''solarflow-hub/telemetry/batteries/ABC123/temp'') (PInt 30)\<close>
    by (simp_all add: accepted_def example_lib_def)
  have s: \<open>map_of ?pack (py ''sn'') = Some (PStr (py ''ABC123''))\<close>
    by simp
  have ex: \<open>utf8_decode pack_example =
      Some (py ''{"packData":[{"sn":"ABC123","volt":52.1,"temp":30}]}'') \<and>
    json_loads example_lib (py ''{"packData":[{"sn":"ABC123","volt":52.1,"temp":30}]}'') =
      Inr (PDict [(py ''packData'', PList [PDict ?pack])]) \<and>
    handle_rx example_lib dev1_config False pack_example =
      ([Log DEBUG (Received (PDict [(py ''packData'', PList [PDict ?pack])]))], Done) \<and>
    handle_rx example_lib dev1_config True pack_example =
       ([Log DEBUG (Received (PDict [(py ''packData'', PList [PDict ?pack])])),
         Log INFO (BatteryPacks 1),
         Log DEBUG (PackSN (PStr (py ''ABC123''))),
         Publish (py ''solarflow-hub/telemetry/batteries/ABC123/volt'')
           (PFloat (py ''52.1'')) False,
         Publish (py ''solarflow-hub/telemetry/batteries/ABC123/temp'') (PInt 30) False],
        Done)\<close>
    using inst [THEN conjunct2, THEN conjunct2] l n a unfolding f by blast
  have pm: \<open>pack_messages example_lib (PDict ?pack) =
     [(py ''solarflow-hub/telemetry/batteries/ABC123/volt'', PFloat (py ''52.1'')),
      (py ''solarflow-hub/telemetry/batteries/ABC123/temp'', PInt 30)]\<close>
    using inst [THEN conjunct2, THEN conjunct1, rule_format, OF s, THEN conjunct1] by simp
  have acc: \<open>\<forall>pack \<in> set [PDict ?pack]. has_sn pack \<and>
       (\<forall>m \<in> set (pack_messages example_lib pack). accepted example_lib (fst m) (snd m))\<close>
    using a by (simp add: battery_topic_def)
  have pub: \<open>published (fst (handle_rx example_lib dev1_config True pack_example)) =
     [(py ''solarflow-hub/telemetry/batteries/ABC123/volt'', PFloat (py ''52.1'')),
      (py ''solarflow-hub/telemetry/batteries/ABC123/temp'', PInt 30)]\<close>
    using inst [THEN conjunct1] ex acc by (simp add: pm)
  show ?thesis
    using ex pm pub by (intro conjI) simp_all
qed

end
